theory Spec2Isabelle
  imports Main
begin

section \<open>JavaScript strings\<close>

text \<open>
  The service (\<^verbatim>\<open>server.js\<close>, Express + luxon + chrono-node + OpenAI) resolves Spanish and
  Catalan temporal expressions. The snapshot modelled is the one that has the classifier
  \<^verbatim>\<open>esExpresionTemporalClara\<close> and the "semana que viene" rule (first document of
  \<^verbatim>\<open>src/unnamed/part_002\<close>, lines 1-518). Of the snapshot in \<^verbatim>\<open>src/server.js\<close> the
  corrector is modelled as well, as \<open>validarYCorregirFecha_server\<close>; its preprocessor rules
  "pasado manana a las H" and "DAY que viene" are the same code.

  A JavaScript string is a sequence of UTF-16 code units. Every character the source names in a
  literal or a regular expression lies below U+0100, so a string is modelled as a \<open>char list\<close>
  whose elements are the code units 0..255 (Latin-1). On that range \<^verbatim>\<open>toLowerCase\<close>,
  \<^verbatim>\<open>trim\<close>, \<^verbatim>\<open>\s\<close>, \<^verbatim>\<open>\d\<close>, \<^verbatim>\<open>\b\<close> and case-insensitive matching are
  given exactly as ECMAScript defines them.
\<close>

abbreviation a_grave :: char where "a_grave \<equiv> CHR 0xE0"
abbreviation a_acute :: char where "a_acute \<equiv> CHR 0xE1"
abbreviation c_cedil :: char where "c_cedil \<equiv> CHR 0xE7"
abbreviation e_acute :: char where "e_acute \<equiv> CHR 0xE9"
abbreviation i_acute :: char where "i_acute \<equiv> CHR 0xED"
abbreviation n_tilde :: char where "n_tilde \<equiv> CHR 0xF1"
abbreviation o_grave :: char where "o_grave \<equiv> CHR 0xF2"
abbreviation o_acute :: char where "o_acute \<equiv> CHR 0xF3"
abbreviation u_diaer :: char where "u_diaer \<equiv> CHR 0xFC"

text \<open>The letters below U+0100 that have another case: A-Z with a-z, and U+00C0..U+00DE (but
  the multiplication sign U+00D7) with U+00E0..U+00FE (but the division sign U+00F7).\<close>

definition letras :: "(char \<times> char) list" where
  "letras =
     zip ''ABCDEFGHIJKLMNOPQRSTUVWXYZ'' ''abcdefghijklmnopqrstuvwxyz'' @
     [(CHR 0xC0, CHR 0xE0), (CHR 0xC1, CHR 0xE1), (CHR 0xC2, CHR 0xE2), (CHR 0xC3, CHR 0xE3),
      (CHR 0xC4, CHR 0xE4), (CHR 0xC5, CHR 0xE5), (CHR 0xC6, CHR 0xE6), (CHR 0xC7, CHR 0xE7),
      (CHR 0xC8, CHR 0xE8), (CHR 0xC9, CHR 0xE9), (CHR 0xCA, CHR 0xEA), (CHR 0xCB, CHR 0xEB),
      (CHR 0xCC, CHR 0xEC), (CHR 0xCD, CHR 0xED), (CHR 0xCE, CHR 0xEE), (CHR 0xCF, CHR 0xEF),
      (CHR 0xD0, CHR 0xF0), (CHR 0xD1, CHR 0xF1), (CHR 0xD2, CHR 0xF2), (CHR 0xD3, CHR 0xF3),
      (CHR 0xD4, CHR 0xF4), (CHR 0xD5, CHR 0xF5), (CHR 0xD6, CHR 0xF6), (CHR 0xD8, CHR 0xF8),
      (CHR 0xD9, CHR 0xF9), (CHR 0xDA, CHR 0xFA), (CHR 0xDB, CHR 0xFB), (CHR 0xDC, CHR 0xFC),
      (CHR 0xDD, CHR 0xFD), (CHR 0xDE, CHR 0xFE)]"

text \<open>\<^verbatim>\<open>String.prototype.toLowerCase\<close>: each capital becomes its small letter.\<close>

definition minuscula :: "char \<Rightarrow> char" where
  "minuscula c = (case map_of letras c of Some l \<Rightarrow> l | None \<Rightarrow> c)"

definition toLowerCase :: "string \<Rightarrow> string" where
  "toLowerCase s = map minuscula s"

text \<open>White space and line terminators below U+0100: TAB, LF, VT, FF, CR, SP, NBSP.\<close>

definition esEspacio :: "char \<Rightarrow> bool" where
  "esEspacio c = (c \<in> set [CHR 0x09, CHR 0x0A, CHR 0x0B, CHR 0x0C, CHR 0x0D, CHR 0x20, CHR 0xA0])"

definition trim :: "string \<Rightarrow> string" where
  "trim s = rev (dropWhile esEspacio (rev (dropWhile esEspacio s)))"

fun empiezaCon :: "string \<Rightarrow> string \<Rightarrow> bool" where
  "empiezaCon s [] = True"
| "empiezaCon [] (p # ps) = False"
| "empiezaCon (c # cs) (p # ps) = (c = p \<and> empiezaCon cs ps)"

text \<open>\<^verbatim>\<open>String.prototype.includes\<close>.\<close>

fun js_includes :: "string \<Rightarrow> string \<Rightarrow> bool" where
  "js_includes [] sub = empiezaCon [] sub"
| "js_includes (c # cs) sub = (empiezaCon (c # cs) sub \<or> js_includes cs sub)"

text \<open>\<^verbatim>\<open>Array.prototype.some\<close> is \<^const>\<open>list_ex\<close>.\<close>

section \<open>Regular expressions\<close>

text \<open>
  The fragment of ECMAScript regular expressions the source uses, all with the flag \<^verbatim>\<open>i\<close>
  and without \<^verbatim>\<open>g\<close> or \<^verbatim>\<open>u\<close>: literals, \<^verbatim>\<open>\s\<close>, \<^verbatim>\<open>\d\<close>, a bracket class, sequence,
  ordered alternation, greedy \<^verbatim>\<open>?\<close> on an expression, greedy \<^verbatim>\<open>*\<close> and \<^verbatim>\<open>+\<close> on a single
  character class, capturing groups and \<^verbatim>\<open>\b\<close>.
\<close>

datatype clase = Lit char | Espacio | Digito | Conj "char list"

datatype rx =
    C clase
  | Sec rx rx
  | Alt rx rx
  | Opc rx
  | Ast clase
  | Grupo rx
  | Borde
  | Vacio

text \<open>Canonicalize of a case-insensitive, non-Unicode match: the upper-case form when it is a
  single code unit that does not turn a non-ASCII character into an ASCII one. Below U+0100
  that sends each small letter to its capital and changes nothing else.\<close>

definition canonicalize :: "char \<Rightarrow> char" where
  "canonicalize c = (case map_of (map (\<lambda>(u, l). (l, u)) letras) c of Some u \<Rightarrow> u | None \<Rightarrow> c)"

definition esDigito :: "char \<Rightarrow> bool" where
  "esDigito c = (c \<in> set ''0123456789'')"

text \<open>Word characters of \<^verbatim>\<open>\b\<close>: letters A-Z, a-z, digits and the underscore.\<close>

definition esPalabra :: "char \<Rightarrow> bool" where
  "esPalabra c =
     (c \<in> set ''ABCDEFGHIJKLMNOPQRSTUVWXYZabcdefghijklmnopqrstuvwxyz0123456789_'')"

fun enClase :: "clase \<Rightarrow> char \<Rightarrow> bool" where
  "enClase (Lit p) c = (canonicalize c = canonicalize p)"
| "enClase Espacio c = esEspacio c"
| "enClase Digito c = esDigito c"
| "enClase (Conj ps) c = list_ex (\<lambda>p. canonicalize c = canonicalize p) ps"

text \<open>A matcher state: the groups captured so far (in the order they closed), the character
  before the current position (none at the start of the input) and the rest of the input.\<close>

type_synonym estado = "string list \<times> char option \<times> string"

text \<open>Greedy repetition of a character class: the states after consuming the longest run
  first, then each shorter one, the empty one last.\<close>

fun repetir :: "clase \<Rightarrow> string list \<Rightarrow> char option \<Rightarrow> string \<Rightarrow> estado list" where
  "repetir cl caps p [] = [(caps, p, [])]"
| "repetir cl caps p (c # cs) =
     (if enClase cl c then repetir cl caps (Some c) cs @ [(caps, p, c # cs)]
      else [(caps, p, c # cs)])"

definition lado :: "char option \<Rightarrow> bool" where
  "lado p = (case p of None \<Rightarrow> False | Some c \<Rightarrow> esPalabra c)"

text \<open>All the ways an expression matches at the current position, in the order a
  backtracking matcher tries them.\<close>

fun coincidencias :: "rx \<Rightarrow> estado \<Rightarrow> estado list" where
  "coincidencias (C cl) (caps, p, s) =
     (case s of [] \<Rightarrow> [] | c # cs \<Rightarrow> if enClase cl c then [(caps, Some c, cs)] else [])"
| "coincidencias (Sec a b) st = concat (map (coincidencias b) (coincidencias a st))"
| "coincidencias (Alt a b) st = coincidencias a st @ coincidencias b st"
| "coincidencias (Opc a) st = coincidencias a st @ [st]"
| "coincidencias (Ast cl) (caps, p, s) = repetir cl caps p s"
| "coincidencias (Grupo a) (caps, p, s) =
     map (\<lambda>(caps', p', s'). (caps' @ [take (length s - length s') s], p', s'))
       (coincidencias a (caps, p, s))"
| "coincidencias Borde (caps, p, s) =
     (if lado p \<noteq> lado (case s of [] \<Rightarrow> None | c # _ \<Rightarrow> Some c) then [(caps, p, s)] else [])"
| "coincidencias Vacio st = [st]"

text \<open>The leftmost match: the first position at which the expression matches, and there the
  first way it does.\<close>

fun buscar :: "rx \<Rightarrow> char option \<Rightarrow> string \<Rightarrow> string list option" where
  "buscar r p [] = (case coincidencias r ([], p, []) of [] \<Rightarrow> None | (caps, _) # _ \<Rightarrow> Some caps)"
| "buscar r p (c # cs) =
     (case coincidencias r ([], p, c # cs) of
        [] \<Rightarrow> buscar r (Some c) cs
      | (caps, _) # _ \<Rightarrow> Some caps)"

text \<open>\<^verbatim>\<open>String.prototype.match\<close> with a non-global expression: \<open>None\<close> is \<^verbatim>\<open>null\<close>,
  \<open>Some caps\<close> the match array's groups 1, 2, ...\<close>

definition js_match :: "string \<Rightarrow> rx \<Rightarrow> string list option" where
  "js_match s r = buscar r None s"

definition coincide :: "string \<Rightarrow> rx \<Rightarrow> bool" where
  "coincide s r = (js_match s r \<noteq> None)"

text \<open>Building blocks for writing the source's expressions.\<close>

fun lit :: "string \<Rightarrow> rx" where
  "lit [] = Vacio"
| "lit [c] = C (Lit c)"
| "lit (c # cs) = Sec (C (Lit c)) (lit cs)"

fun sec :: "rx list \<Rightarrow> rx" where
  "sec [] = Vacio"
| "sec [r] = r"
| "sec (r # rs) = Sec r (sec rs)"

fun alt :: "rx list \<Rightarrow> rx" where
  "alt [] = Vacio"
| "alt [r] = r"
| "alt (r # rs) = Alt r (alt rs)"

definition mas :: "clase \<Rightarrow> rx" where
  "mas cl = Sec (C cl) (Ast cl)"

abbreviation esp_mas :: rx where "esp_mas \<equiv> mas Espacio"
abbreviation esp_ast :: rx where "esp_ast \<equiv> Ast Espacio"


section \<open>The luxon \<open>DateTime\<close> values the service computes with\<close>

text \<open>
  luxon is an external library. A valid \<^verbatim>\<open>DateTime\<close> is an instant seen in a zone; it is
  modelled as \<open>DT w z\<close>, where \<open>z\<close> is the zone's UTC offset in minutes and \<open>w\<close> is the
  wall-clock timestamp in milliseconds (the value \<^verbatim>\<open>Date.UTC\<close> gives for the calendar
  fields read in that zone), so the instant is \<open>w - z * 60000\<close>. The calendar fields,
  \<^verbatim>\<open>plus\<close>, \<^verbatim>\<open>set\<close> and the formats work on the wall clock of the value's own zone;
  comparisons work on the instant. \<^verbatim>\<open>plus\<close> and \<^verbatim>\<open>set\<close> rebuild the timestamp from the
  calendar fields through \<^verbatim>\<open>Date.UTC\<close>, which lets a field overflow into the next larger
  one and yields \<^verbatim>\<open>NaN\<close> (an invalid \<^verbatim>\<open>DateTime\<close>) outside \<open>\<plusminus>8.64e15\<close> ms.

  The process's zone (the one \<^verbatim>\<open>DateTime.fromJSDate(date)\<close> uses when it is given no zone)
  and the request's zone are two zones, each with a constant offset. A zone with daylight
  saving is outside the model: there luxon also moves a wall time that does not exist (02:00
  on 2026-03-29 in Europe/Madrid becomes 03:00+02:00), and a day added across a change of
  offset keeps the wall time, not the 24 hours.
\<close>

datatype DateTime = DT int int | Invalid

definition msPorDia :: int where "msPorDia = 86400000"
definition msPorHora :: int where "msPorHora = 3600000"
definition msPorMinuto :: int where "msPorMinuto = 60000"
definition msPorSegundo :: int where "msPorSegundo = 1000"
definition maxTime :: int where "maxTime = 8640000000000000"

text \<open>\<^verbatim>\<open>TimeClip\<close>.\<close>

definition recortar :: "int \<Rightarrow> int \<Rightarrow> DateTime" where
  "recortar z t = (if \<bar>t\<bar> \<le> maxTime then DT t z else Invalid)"

definition isValid :: "DateTime \<Rightarrow> bool" where
  "isValid d = (d \<noteq> Invalid)"

text \<open>Fields of a timestamp; the weekday is 1 (Monday) to 7 (Sunday), and day 0 was a Thursday.\<close>

definition horaDe :: "int \<Rightarrow> int" where
  "horaDe t = (t mod msPorDia) div msPorHora"

definition minutoDe :: "int \<Rightarrow> int" where
  "minutoDe t = (t mod msPorHora) div msPorMinuto"

definition segundoDe :: "int \<Rightarrow> int" where
  "segundoDe t = (t mod msPorMinuto) div msPorSegundo"

definition miliDe :: "int \<Rightarrow> int" where
  "miliDe t = t mod msPorSegundo"

definition diaSemanaDe :: "int \<Rightarrow> int" where
  "diaSemanaDe t = (t div msPorDia + 3) mod 7 + 1"

text \<open>The getters; \<open>None\<close> is the \<^verbatim>\<open>NaN\<close> an invalid \<^verbatim>\<open>DateTime\<close> answers.\<close>

fun hour :: "DateTime \<Rightarrow> int option" where
  "hour (DT t z) = Some (horaDe t)"
| "hour Invalid = None"

fun minute :: "DateTime \<Rightarrow> int option" where
  "minute (DT t z) = Some (minutoDe t)"
| "minute Invalid = None"

fun weekday :: "DateTime \<Rightarrow> int option" where
  "weekday (DT t z) = Some (diaSemanaDe t)"
| "weekday Invalid = None"

text \<open>\<^verbatim>\<open>a < b\<close> and \<^verbatim>\<open>a >= b\<close> compare \<^verbatim>\<open>valueOf()\<close>, the instant; with a \<^verbatim>\<open>NaN\<close> both
  are false.\<close>

fun menor :: "DateTime \<Rightarrow> DateTime \<Rightarrow> bool" where
  "menor (DT a za) (DT b zb) = (a - za * msPorMinuto < b - zb * msPorMinuto)"
| "menor _ _ = False"

fun mayorIgual :: "DateTime \<Rightarrow> DateTime \<Rightarrow> bool" where
  "mayorIgual (DT a za) (DT b zb) = (a - za * msPorMinuto \<ge> b - zb * msPorMinuto)"
| "mayorIgual _ _ = False"

text \<open>The same instant seen in the zone of offset \<open>z\<close>: \<^verbatim>\<open>dt.setZone(zone)\<close>.\<close>

fun enZona :: "int \<Rightarrow> DateTime \<Rightarrow> DateTime" where
  "enZona z (DT t z0) = DT (t + (z - z0) * msPorMinuto) z"
| "enZona z Invalid = Invalid"

text \<open>A JavaScript \<^verbatim>\<open>Date\<close> is an instant. It is written as the \<^verbatim>\<open>DateTime\<close> of that instant
  in UTC; \<^verbatim>\<open>dt.toJSDate()\<close> forgets the zone, and \<^verbatim>\<open>DateTime.fromJSDate(date, { zone })\<close>
  sees the instant in the zone, which is the process's zone when none is given.\<close>

definition toJSDate :: "DateTime \<Rightarrow> DateTime" where
  "toJSDate dt = enZona 0 dt"

definition fromJSDate :: "int \<Rightarrow> DateTime \<Rightarrow> DateTime" where
  "fromJSDate z date = enZona z date"

text \<open>\<^verbatim>\<open>dt.plus({ days: n })\<close>.\<close>

fun plus_days :: "DateTime \<Rightarrow> int \<Rightarrow> DateTime" where
  "plus_days (DT t z) n = recortar z (t + n * msPorDia)"
| "plus_days Invalid n = Invalid"

text \<open>\<^verbatim>\<open>dt.set({ ... })\<close> on the units of the time of day: a unit that is not given keeps its
  value, and no value is checked against the unit's range.\<close>

datatype unidad = Hour | Minute | Second | Millisecond

definition valorDe :: "(unidad \<rightharpoonup> int) \<Rightarrow> unidad \<Rightarrow> int \<Rightarrow> int" where
  "valorDe vs u actual = (case vs u of Some v \<Rightarrow> v | None \<Rightarrow> actual)"

fun set_dt :: "DateTime \<Rightarrow> (unidad \<rightharpoonup> int) \<Rightarrow> DateTime" where
  "set_dt (DT t z) vs =
     recortar z ((t div msPorDia) * msPorDia
       + valorDe vs Hour (horaDe t) * msPorHora
       + valorDe vs Minute (minutoDe t) * msPorMinuto
       + valorDe vs Second (segundoDe t) * msPorSegundo
       + valorDe vs Millisecond (miliDe t))"
| "set_dt Invalid vs = Invalid"

subsection \<open>The calendar\<close>

text \<open>Days since 1970-01-01 of a date of the proleptic Gregorian calendar, and back.\<close>

definition dias_desde_civil :: "int \<Rightarrow> int \<Rightarrow> int \<Rightarrow> int" where
  "dias_desde_civil y m d =
     (let y' = (if m \<le> 2 then y - 1 else y);
          era = y' div 400;
          yoe = y' - era * 400;
          mp = (if m > 2 then m - 3 else m + 9);
          doy = (153 * mp + 2) div 5 + d - 1;
          doe = yoe * 365 + yoe div 4 - yoe div 100 + doy
      in era * 146097 + doe - 719468)"

definition civil_desde_dias :: "int \<Rightarrow> int \<times> int \<times> int" where
  "civil_desde_dias z0 =
     (let z = z0 + 719468;
          era = z div 146097;
          doe = z - era * 146097;
          yoe = (doe - doe div 1460 + doe div 36524 - doe div 146096) div 365;
          doy = doe - (365 * yoe + yoe div 4 - yoe div 100);
          mp = (5 * doy + 2) div 153;
          d = doy - (153 * mp + 2) div 5 + 1;
          m = (if mp < 10 then mp + 3 else mp - 9)
      in (if m \<le> 2 then yoe + era * 400 + 1 else yoe + era * 400, m, d))"

text \<open>\<^verbatim>\<open>DateTime.fromObject({ year, month, day, hour, minute }, { zone })\<close> for fields in
  range, in the zone of offset \<open>z\<close>; \<open>fecha_local\<close> is the same in the zone UTC+01:00 of the
  examples (Europe/Madrid in November).\<close>

definition fecha_en :: "int \<Rightarrow> int \<Rightarrow> int \<Rightarrow> int \<Rightarrow> int \<Rightarrow> int \<Rightarrow> DateTime" where
  "fecha_en z y m d h mi =
     recortar z (dias_desde_civil y m d * msPorDia + h * msPorHora + mi * msPorMinuto)"

definition fecha_local :: "int \<Rightarrow> int \<Rightarrow> int \<Rightarrow> int \<Rightarrow> int \<Rightarrow> DateTime" where
  "fecha_local y m d h mi = fecha_en 60 y m d h mi"

subsection \<open>Formatting\<close>

fun digitos :: "nat \<Rightarrow> string" where
  "digitos n =
     (if n < 10 then [''0123456789'' ! n] else digitos (n div 10) @ [''0123456789'' ! (n mod 10)])"

declare digitos.simps [simp del]

text \<open>luxon's \<^verbatim>\<open>padStart(input, n)\<close>: the sign, then the digits padded with zeros to \<open>n\<close>.\<close>

definition padStart :: "int \<Rightarrow> nat \<Rightarrow> string" where
  "padStart x n =
     (let ds = digitos (nat \<bar>x\<bar>);
          padded = replicate (n - length ds) (CHR ''0'') @ ds
      in if x < 0 then CHR ''-'' # padded else padded)"

datatype idioma = Es | Ca

text \<open>\<^verbatim>\<open>setLocale(locale).toFormat("cccc")\<close>: the weekday's long name in the locale.\<close>

definition nombreDia :: "idioma \<Rightarrow> int \<Rightarrow> string" where
  "nombreDia l w =
     (case l of
        Es \<Rightarrow> [''lunes'', ''martes'', ''mi'' @ [e_acute] @ ''rcoles'', ''jueves'', ''viernes'',
               ''s'' @ [a_acute] @ ''bado'', ''domingo''] ! nat (w - 1)
      | Ca \<Rightarrow> [''dilluns'', ''dimarts'', ''dimecres'', ''dijous'', ''divendres'', ''dissabte'',
               ''diumenge''] ! nat (w - 1))"

definition INVALID :: string where
  "INVALID = ''Invalid DateTime''"

datatype formato = Fmt_yyyy_MM_dd | Fmt_HH_mm | Fmt_cccc idioma

fun toFormat :: "DateTime \<Rightarrow> formato \<Rightarrow> string" where
  "toFormat Invalid f = INVALID"
| "toFormat (DT t z) Fmt_yyyy_MM_dd =
     (case civil_desde_dias (t div msPorDia) of
        (y, m, d) \<Rightarrow> padStart y 4 @ ''-'' @ padStart m 2 @ ''-'' @ padStart d 2)"
| "toFormat (DT t z) Fmt_HH_mm = padStart (horaDe t) 2 @ '':'' @ padStart (minutoDe t) 2"
| "toFormat (DT t z) (Fmt_cccc l) = nombreDia l (diaSemanaDe t)"

text \<open>\<^verbatim>\<open>toISO()\<close>, with the offset of the value's own zone; \<open>None\<close> is the \<^verbatim>\<open>null\<close> of an
  invalid \<^verbatim>\<open>DateTime\<close>. An IANA zone and the process's zone print their offset also when it
  is zero.\<close>

fun toISO :: "DateTime \<Rightarrow> string option" where
  "toISO Invalid = None"
| "toISO (DT t off) =
     (case civil_desde_dias (t div msPorDia) of
        (y, m, d) \<Rightarrow>
          Some ((if y > 9999 \<or> y < 0 then (if y < 0 then ''-'' else ''+'') @ padStart \<bar>y\<bar> 6
                 else padStart y 4)
            @ ''-'' @ padStart m 2 @ ''-'' @ padStart d 2 @ ''T''
            @ padStart (horaDe t) 2 @ '':'' @ padStart (minutoDe t) 2 @ '':''
            @ padStart (segundoDe t) 2 @ ''.'' @ padStart (miliDe t) 3
            @ (if off < 0 then ''-'' else ''+'')
            @ padStart (\<bar>off\<bar> div 60) 2 @ '':'' @ padStart (\<bar>off\<bar> mod 60) 2))"


section \<open>Words with accents\<close>

abbreviation s_manana :: string where "s_manana \<equiv> ''ma'' @ [n_tilde] @ ''ana''"
abbreviation s_dema :: string where "s_dema \<equiv> ''dem'' @ [a_grave]"
abbreviation s_miercoles :: string where "s_miercoles \<equiv> ''mi'' @ [e_acute] @ ''rcoles''"
abbreviation s_sabado :: string where "s_sabado \<equiv> ''s'' @ [a_acute] @ ''bado''"
abbreviation s_proxima :: string where "s_proxima \<equiv> ''pr'' @ [o_acute] @ ''xima''"
abbreviation s_proxima_ca :: string where "s_proxima_ca \<equiv> ''pr'' @ [o_grave] @ ''xima''"
abbreviation s_seguent :: string where "s_seguent \<equiv> ''seg'' @ [u_diaer] @ ''ent''"
abbreviation s_ano :: string where "s_ano \<equiv> ''a'' @ [n_tilde] @ ''o''"
abbreviation s_dia :: string where "s_dia \<equiv> ''d'' @ [i_acute] @ ''a''"
abbreviation s_pasado_manana :: string where "s_pasado_manana \<equiv> ''pasado '' @ s_manana"
abbreviation s_dema_passat :: string where "s_dema_passat \<equiv> s_dema @ '' passat''"

section \<open>\<^verbatim>\<open>preprocesarExpresion\<close>\<close>

text \<open>\<^verbatim>\<open>/pasado\s+ma\<close>n~\<^verbatim>\<open>ana\s+a\s+las\s+(\d+)/i\<close>\<close>

definition rx_pasadoMananaHora :: rx where
  "rx_pasadoMananaHora =
     sec [lit ''pasado'', esp_mas, lit s_manana, esp_mas, lit ''a'', esp_mas, lit ''las'',
          esp_mas, Grupo (mas Digito)]"

text \<open>\<^verbatim>\<open>/dem\<close>a`\<^verbatim>\<open>\s+passat\s+a\s+les\s+(\d+)/i\<close>\<close>

definition rx_demaPassatHora :: rx where
  "rx_demaPassatHora =
     sec [lit s_dema, esp_mas, lit ''passat'', esp_mas, lit ''a'', esp_mas, lit ''les'',
          esp_mas, Grupo (mas Digito)]"

text \<open>The group of weekday names of the preprocessor's expressions, with and without accents.\<close>

definition rx_dia :: rx where
  "rx_dia =
     Grupo (alt (map lit
       [''lunes'', ''martes'', s_miercoles, ''miercoles'', ''jueves'', ''viernes'', s_sabado,
        ''sabado'', ''domingo'', ''dilluns'', ''dimarts'', ''dimecres'', ''dijous'',
        ''divendres'', ''dissabte'', ''diumenge'']))"

definition rx_proxima :: "rx list" where
  "rx_proxima =
     map lit [s_proxima, ''proxima'', s_proxima_ca, ''vinent'', ''propera'', ''siguiente'',
              s_seguent]"

text \<open>\<^verbatim>\<open>(?:el\s+)?(DAY)\s+(?:de\s+la\s+)?(?:semana|setmana)\s+(?:que\s+(?:viene|ve)|NEXT)\<close>\<close>

definition rx_semanaQueViene1 :: rx where
  "rx_semanaQueViene1 =
     sec [Opc (sec [lit ''el'', esp_mas]), rx_dia, esp_mas,
          Opc (sec [lit ''de'', esp_mas, lit ''la'', esp_mas]),
          alt [lit ''semana'', lit ''setmana''], esp_mas,
          alt (sec [lit ''que'', esp_mas, alt [lit ''viene'', lit ''ve'']] # rx_proxima)]"

text \<open>\<^verbatim>\<open>(?:el\s+)?(DAY)\s+(?:NEXT)\s+(?:semana|setmana)\<close>\<close>

definition rx_semanaQueViene2 :: rx where
  "rx_semanaQueViene2 =
     sec [Opc (sec [lit ''el'', esp_mas]), rx_dia, esp_mas, alt rx_proxima, esp_mas,
          alt [lit ''semana'', lit ''setmana'']]"

text \<open>\<^verbatim>\<open>(?:el\s+)?(DAY)\s+que\s+(viene|ve)\<close>\<close>

definition rx_queViene :: rx where
  "rx_queViene =
     sec [Opc (sec [lit ''el'', esp_mas]), rx_dia, esp_mas, lit ''que'', esp_mas,
          Grupo (alt [lit ''viene'', lit ''ve''])]"

text \<open>The object \<^verbatim>\<open>diasSemana\<close>; a name that is not a key answers \<^verbatim>\<open>undefined\<close>.\<close>

definition diasSemana :: "string \<rightharpoonup> int" where
  "diasSemana =
     map_of [(''lunes'', 1), (''martes'', 2), (s_miercoles, 3), (''miercoles'', 3),
             (''jueves'', 4), (''viernes'', 5), (s_sabado, 6), (''sabado'', 6), (''domingo'', 7),
             (''dilluns'', 1), (''dimarts'', 2), (''dimecres'', 3), (''dijous'', 4),
             (''divendres'', 5), (''dissabte'', 6), (''diumenge'', 7)]"

text \<open>Group 1 of a match array.\<close>

definition grupo1 :: "string list \<Rightarrow> string" where
  "grupo1 caps = (case caps of [] \<Rightarrow> [] | g # _ \<Rightarrow> g)"

text \<open>\<^verbatim>\<open>parseInt\<close> of a string of decimal digits, as an exact integer. JavaScript rounds a
  value above \<open>2^53\<close> to a double; an hour that large puts the date out of range either
  way.\<close>

definition valorDigito :: "char \<Rightarrow> int" where
  "valorDigito c =
     (case map_of (zip ''0123456789'' [0, 1, 2, 3, 4, 5, 6, 7, 8, 9]) c of
        Some v \<Rightarrow> v | None \<Rightarrow> 0)"

definition parseInt :: "string \<Rightarrow> int" where
  "parseInt s = foldl (\<lambda>a c. 10 * a + valorDigito c) 0 s"

text \<open>The four units every rule sets: \<^verbatim>\<open>{ hour: h, minute: 0, second: 0, millisecond: 0 }\<close>.\<close>

definition enPunto :: "int \<Rightarrow> (unidad \<rightharpoonup> int)" where
  "enPunto h = [Hour \<mapsto> h, Minute \<mapsto> 0, Second \<mapsto> 0, Millisecond \<mapsto> 0]"

text \<open>\<^verbatim>\<open>(8 - hoyDiaSemana) % 7 || 7\<close>; the operand is never negative, so \<^verbatim>\<open>%\<close> is \<open>mod\<close>.\<close>

definition diasHastaLunesProxima :: "int \<Rightarrow> int" where
  "diasHastaLunesProxima hoyDiaSemana =
     (if (8 - hoyDiaSemana) mod 7 = 0 then 7 else (8 - hoyDiaSemana) mod 7)"

text \<open>The body of the rule "DAY de la semana que viene" once the name is looked up.\<close>

definition reglaSemanaQueViene :: "DateTime \<Rightarrow> int \<Rightarrow> DateTime" where
  "reglaSemanaQueViene refDate diaObjetivo =
     (case weekday refDate of
        None \<Rightarrow> Invalid
      | Some hoyDiaSemana \<Rightarrow>
          (let diasDesdeLunes = (diaObjetivo - 1) mod 7;
               diasSumar = diasHastaLunesProxima hoyDiaSemana + diasDesdeLunes
           in set_dt (plus_days refDate diasSumar) (enPunto 14)))"

text \<open>The body of the rule "DAY que viene" once the name is looked up.\<close>

definition reglaQueViene :: "DateTime \<Rightarrow> int \<Rightarrow> DateTime" where
  "reglaQueViene refDate diaObjetivo =
     (case weekday refDate of
        None \<Rightarrow> Invalid
      | Some hoyDiaSemana \<Rightarrow>
          (let diasSumar0 = diaObjetivo - hoyDiaSemana;
               diasSumar1 = (if diasSumar0 \<le> 0 then diasSumar0 + 7 else diasSumar0);
               diasSumar = (if hoyDiaSemana = 5 \<and> diasSumar1 \<le> 2 then 3 else diasSumar1)
           in set_dt (plus_days refDate diasSumar) (enPunto 14)))"

text \<open>\<^verbatim>\<open>matchSemanaQueViene1 || matchSemanaQueViene2\<close>\<close>

definition matchSemanaQueViene :: "string \<Rightarrow> string list option" where
  "matchSemanaQueViene normalizada =
     (case js_match normalizada rx_semanaQueViene1 of
        Some caps \<Rightarrow> Some caps
      | None \<Rightarrow> js_match normalizada rx_semanaQueViene2)"

text \<open>The target weekday of a match: \<^verbatim>\<open>diasSemana[m[1].toLowerCase()]\<close>, when there is a
  match and the value is truthy.\<close>

definition diaObjetivoDe :: "string list option \<Rightarrow> int option" where
  "diaObjetivoDe m =
     (case m of
        None \<Rightarrow> None
      | Some caps \<Rightarrow>
          (case diasSemana (toLowerCase (grupo1 caps)) of
             None \<Rightarrow> None
           | Some d \<Rightarrow> if d = 0 then None else Some d))"

text \<open>The function; \<open>None\<close> is the \<^verbatim>\<open>null\<close> that hands the expression to chrono. The
  reference is a \<^verbatim>\<open>Date\<close>, and \<^verbatim>\<open>DateTime.fromJSDate(fechaReferencia)\<close> sees it in the
  process's zone, whose offset is the parameter \<open>zonaSistema\<close>: the weekday of today, the two
  days added and the hour set are those of that zone, and so is the zone of the result.\<close>

definition preprocesarExpresion :: "int \<Rightarrow> string \<Rightarrow> DateTime \<Rightarrow> DateTime option" where
  "preprocesarExpresion zonaSistema expresion fechaReferencia =
     (let normalizada = trim (toLowerCase expresion);
          refDate = fromJSDate zonaSistema fechaReferencia
      in case js_match expresion rx_pasadoMananaHora of
           Some caps \<Rightarrow> Some (set_dt (plus_days refDate 2) (enPunto (parseInt (grupo1 caps))))
         | None \<Rightarrow>
        (case js_match expresion rx_demaPassatHora of
           Some caps \<Rightarrow> Some (set_dt (plus_days refDate 2) (enPunto (parseInt (grupo1 caps))))
         | None \<Rightarrow>
        if js_includes normalizada s_pasado_manana \<or> js_includes normalizada s_dema_passat
        then Some (plus_days refDate 2)
        else
        (case diaObjetivoDe (matchSemanaQueViene normalizada) of
           Some diaObjetivo \<Rightarrow> Some (reglaSemanaQueViene refDate diaObjetivo)
         | None \<Rightarrow>
        (case diaObjetivoDe (js_match normalizada rx_queViene) of
           Some diaObjetivo \<Rightarrow> Some (reglaQueViene refDate diaObjetivo)
         | None \<Rightarrow> None))))"


section \<open>\<^verbatim>\<open>validarYCorregirFecha\<close>\<close>

text \<open>\<^verbatim>\<open>/(?:en|dentro de|dins de)\s+(\d+)\s+d[i\<close>i'\<^verbatim>\<open>]as?/i\<close>\<close>

definition rx_dias :: rx where
  "rx_dias = sec [lit ''d'', C (Conj [CHR ''i'', i_acute]), lit ''a'', Opc (lit ''s'')]"

definition rx_enNDias :: rx where
  "rx_enNDias =
     sec [alt [lit ''en'', lit ''dentro de'', lit ''dins de''], esp_mas, Grupo (mas Digito),
          esp_mas, rx_dias]"

text \<open>\<^verbatim>\<open>/par\s+de\s+d[i\<close>i'\<^verbatim>\<open>]as?/i\<close>\<close>

definition rx_parDeDias :: rx where
  "rx_parDeDias = sec [lit ''par'', esp_mas, lit ''de'', esp_mas, rx_dias]"

text \<open>\<^verbatim>\<open>/(?:el|la|els|les)\s+(DAY)/i\<close>, the names with their accents only.\<close>

definition rx_diaSemanaEspecifico :: rx where
  "rx_diaSemanaEspecifico =
     sec [alt [lit ''el'', lit ''la'', lit ''els'', lit ''les''], esp_mas,
          Grupo (alt (map lit
            [''lunes'', ''martes'', s_miercoles, ''jueves'', ''viernes'', s_sabado, ''domingo'',
             ''dilluns'', ''dimarts'', ''dimecres'', ''dijous'', ''divendres'', ''dissabte'',
             ''diumenge'']))]"

text \<open>\<^verbatim>\<open>/\d+\s*(h|horas?|hrs?|m|minutos?)/i\<close>\<close>

definition rx_horaMinuto :: rx where
  "rx_horaMinuto =
     sec [mas Digito, esp_ast,
          Grupo (alt [lit ''h'', sec [lit ''hora'', Opc (lit ''s'')],
                      sec [lit ''hr'', Opc (lit ''s'')], lit ''m'',
                      sec [lit ''minuto'', Opc (lit ''s'')]])]"

text \<open>\<^verbatim>\<open>/a\s+(las?|les?)\s+7\b/i\<close>\<close>

definition rx_hora7 :: rx where
  "rx_hora7 =
     sec [lit ''a'', esp_mas,
          Grupo (alt [sec [lit ''la'', Opc (lit ''s'')], sec [lit ''le'', Opc (lit ''s'')]]),
          esp_mas, lit ''7'', Borde]"

text \<open>\<^verbatim>\<open>/7\s*(am|a\.m\.|de la ma\<close>n~\<^verbatim>\<open>ana)/i\<close>\<close>

definition rx_7am :: rx where
  "rx_7am =
     sec [lit ''7'', esp_ast, Grupo (alt [lit ''am'', lit ''a.m.'', lit (''de la '' @ s_manana)])]"

definition esConteoDias :: "string \<Rightarrow> bool" where
  "esConteoDias normalizada =
     (coincide normalizada rx_enNDias \<or>
      js_includes normalizada s_pasado_manana \<or>
      js_includes normalizada s_dema_passat \<or>
      coincide normalizada rx_parDeDias)"

definition esDiaSemanaEspecifico :: "string \<Rightarrow> bool" where
  "esDiaSemanaEspecifico normalizada = coincide normalizada rx_diaSemanaEspecifico"

text \<open>First block (source lines 113-143): a candidate before the reference, for an
  expression with an article and a weekday that is not a count of days, moves to the next
  such weekday after the reference and keeps its hour and minute. The candidate's weekday,
  hour and minute are read in the candidate's zone, today's weekday in the zone of
  \<open>refDate\<close>, and the result is in the zone of \<open>refDate\<close>.\<close>

definition corregirFechaPasada :: "DateTime \<Rightarrow> DateTime \<Rightarrow> string \<Rightarrow> DateTime" where
  "corregirFechaPasada fecha refDate normalizada =
     (if menor fecha refDate then
        (if esDiaSemanaEspecifico normalizada \<and> \<not> esConteoDias normalizada then
           (case (fecha, refDate) of
              (DT f zf, DT r zr) \<Rightarrow>
                (let diaSemana = diaSemanaDe f;
                     hoyDiaSemana = diaSemanaDe r;
                     diasSumar0 = diaSemana - hoyDiaSemana;
                     diasSumar = (if diasSumar0 \<le> 0 then diasSumar0 + 7 else diasSumar0)
                 in set_dt (plus_days refDate diasSumar)
                      [Hour \<mapsto> horaDe f, Minute \<mapsto> minutoDe f, Second \<mapsto> 0, Millisecond \<mapsto> 0])
            | _ \<Rightarrow> fecha)
         else fecha)
      else fecha)"

text \<open>Second block (lines 145-149): midnight without an hour or minute token becomes 12:00.\<close>

definition horaPorDefecto :: "DateTime \<Rightarrow> string \<Rightarrow> DateTime" where
  "horaPorDefecto fecha normalizada =
     (if hour fecha = Some 0 \<and> minute fecha = Some 0 \<and> \<not> coincide normalizada rx_horaMinuto
      then set_dt fecha [Hour \<mapsto> 12, Minute \<mapsto> 0]
      else fecha)"

text \<open>Third block (lines 151-155): "a las 7" at hour 7 without a morning mark becomes 19.\<close>

definition hora7Tarde :: "DateTime \<Rightarrow> string \<Rightarrow> DateTime" where
  "hora7Tarde fecha normalizada =
     (if coincide normalizada rx_hora7 \<and> hour fecha = Some 7 \<and> \<not> coincide normalizada rx_7am
      then set_dt fecha [Hour \<mapsto> 19]
      else fecha)"

text \<open>The function of \<^verbatim>\<open>src/unnamed/part_002\<close> (lines 109-158). The reference is a
  \<^verbatim>\<open>Date\<close>, seen in the process's zone by \<^verbatim>\<open>DateTime.fromJSDate(fechaReferencia)\<close>.\<close>

definition validarYCorregirFecha :: "int \<Rightarrow> DateTime \<Rightarrow> DateTime \<Rightarrow> string \<Rightarrow> DateTime" where
  "validarYCorregirFecha zonaSistema fecha fechaReferencia expresion =
     (let refDate = fromJSDate zonaSistema fechaReferencia;
          normalizada = toLowerCase expresion;
          fecha1 = corregirFechaPasada fecha refDate normalizada;
          fecha2 = horaPorDefecto fecha1 normalizada
      in hora7Tarde fecha2 normalizada)"

text \<open>The function of the same name in \<^verbatim>\<open>src/server.js\<close> (lines 79-127), another snapshot
  of the corrector: every candidate before the reference is moved, whatever the expression,
  and past a weekend when today is a Friday; midnight without an hour token becomes 14:00;
  "a las 7" at hour 7 becomes 19 with no look at a morning mark; and an hour from 10 to 13
  on a day that is not a Friday becomes 14.\<close>

definition validarYCorregirFecha_server :: "int \<Rightarrow> DateTime \<Rightarrow> DateTime \<Rightarrow> string \<Rightarrow> DateTime" where
  "validarYCorregirFecha_server zonaSistema fecha fechaReferencia expresion =
     (let refDate = fromJSDate zonaSistema fechaReferencia;
          normalizada = toLowerCase expresion;
          fecha1 =
            (if menor fecha refDate then
               (case (fecha, refDate) of
                  (DT f zf, DT r zr) \<Rightarrow>
                    (let diaSemana = diaSemanaDe f;
                         hoyDiaSemana = diaSemanaDe r;
                         diasSumar0 = diaSemana - hoyDiaSemana;
                         diasSumar1 = (if diasSumar0 \<le> 0 then diasSumar0 + 7 else diasSumar0);
                         diasSumar = (if hoyDiaSemana = 5 \<and> diasSumar1 \<le> 2 then 3 else diasSumar1)
                     in set_dt (plus_days refDate diasSumar)
                          [Hour \<mapsto> horaDe f, Minute \<mapsto> minutoDe f, Second \<mapsto> 0, Millisecond \<mapsto> 0])
                | _ \<Rightarrow> fecha)
             else fecha);
          fecha2 =
            (if hour fecha1 = Some 0 \<and> minute fecha1 = Some 0 \<and> \<not> coincide normalizada rx_horaMinuto
             then set_dt fecha1 [Hour \<mapsto> 14, Minute \<mapsto> 0]
             else fecha1);
          fecha3 =
            (if coincide normalizada rx_hora7 \<and> hour fecha2 = Some 7
             then set_dt fecha2 [Hour \<mapsto> 19]
             else fecha2)
      in case (weekday fecha3, hour fecha3) of
           (Some w, Some h) \<Rightarrow>
             if w \<noteq> 5 \<and> h \<ge> 10 \<and> h < 14 then set_dt fecha3 [Hour \<mapsto> 14] else fecha3
         | _ \<Rightarrow> fecha3)"

section \<open>\<^verbatim>\<open>esExpresionTemporalClara\<close> and \<^verbatim>\<open>detectarIdioma\<close>\<close>

definition palabrasTemporales :: "string list" where
  "palabrasTemporales =
     [''hoy'', s_manana, ''pasado'', ''ayer'', ''avui'', s_dema, ''ahir'',
      ''lunes'', ''martes'', s_miercoles, ''jueves'', ''viernes'', s_sabado, ''sabado'', ''domingo'',
      ''dilluns'', ''dimarts'', ''dimecres'', ''dijous'', ''divendres'', ''dissabte'', ''diumenge'',
      ''semana'', ''mes'', s_ano, ''setmana'', ''any'',
      s_dia, ''dias'', ''dia'', ''dies'',
      ''hora'', ''horas'', ''hora'', ''hores'',
      ''minuto'', ''minutos'', ''minut'', ''minuts'',
      ''que viene'', ''que ve'', ''pr'' @ [o_acute] @ ''ximo'', ''proximo'', ''pr'' @ [o_grave] @ ''xim'',
      ''dentro de'', ''dins de'', ''en'', ''a las'', ''a les'', ''las'', ''les'',
      ''par de'', ''parell de'', ''cuando'', ''quan'']"

definition soloSaludos :: "string list" where
  "soloSaludos =
     [''hola'', ''buenos '' @ s_dia @ ''s'', ''buenos dias'', ''buenas tardes'', ''buenas noches'',
      ''bon dia'', ''bona tarda'', ''bona nit'', ''adeu'', ''adios'', ''hasta luego'',
      ''gracias'', ''gr'' @ [a_grave] @ ''cies'', ''de nada'', ''per favor'', ''por favor'', ''si'', ''no'',
      ''ok'', ''vale'', ''perfecto'', ''perfecte'']"

definition tieneTemporal :: "string \<Rightarrow> bool" where
  "tieneTemporal normalizada = list_ex (\<lambda>palabra. js_includes normalizada palabra) palabrasTemporales"

definition esSoloSaludo :: "string \<Rightarrow> bool" where
  "esSoloSaludo normalizada =
     list_ex (\<lambda>saludo.
        let saludoLower = toLowerCase saludo
        in normalizada = saludoLower \<or> normalizada = saludoLower @ ''.'' \<or>
           normalizada = saludoLower @ ''!'' \<or> normalizada = saludoLower @ ''?'') soloSaludos"

definition esExpresionTemporalClara :: "string \<Rightarrow> bool" where
  "esExpresionTemporalClara expresion =
     (let normalizada = trim (toLowerCase expresion)
      in if tieneTemporal normalizada then True
         else if esSoloSaludo normalizada then False
         else True)"

definition palabrasCatalanas :: "string list" where
  "palabrasCatalanas =
     [s_dema, ''avui'', ''ahir'', ''setmana'', ''mes'', ''any'',
      ''dilluns'', ''dimarts'', ''dimecres'', ''dijous'', ''divendres'', ''dissabte'', ''diumenge'',
      ''gener'', ''febrer'', ''mar'' @ [c_cedil], ''abril'', ''maig'', ''juny'', ''juliol'',
      ''agost'', ''setembre'', ''octubre'', ''novembre'', ''desembre'']"

definition detectarIdioma :: "string \<Rightarrow> idioma" where
  "detectarIdioma expresion =
     (let normalizada = toLowerCase expresion
      in if list_ex (\<lambda>palabra. js_includes normalizada palabra) palabrasCatalanas then Ca else Es)"


section \<open>The collaborators: chrono, the model client, \<^verbatim>\<open>DateTime.fromISO\<close>\<close>

text \<open>
  What the service calls and does not implement is a parameter of the model:
  \<^item> \<open>openai\<close>: the client, \<open>None\<close> when no API key is configured. A completion either throws
    (transport error, timeout) or answers \<^verbatim>\<open>choices[0]?.message?.content\<close>, which may be
    missing. The translation request depends on the expression; the date request on the
    expression, the reference's ISO form and the zone.
  \<^item> \<open>chrono_es_parseDate\<close>: \<^verbatim>\<open>chrono.es.parseDate(text, ref)\<close>, a date or \<^verbatim>\<open>null\<close>. A
    chrono that throws is not modelled: the handler's \<^verbatim>\<open>catch\<close> would answer 500.
  \<^item> \<open>fromISO\<close>: the instant \<^verbatim>\<open>DateTime.fromISO(text, { zone })\<close> reads in the text, possibly
    invalid; \<open>fromISO_zona\<close> below sees it in the zone, as luxon does.
  \<^item> \<open>zonaSistema\<close>: the UTC offset in minutes of the process's zone.
  \<^item> \<open>zonaOffset\<close>: the UTC offset in minutes of a zone, by its name.
\<close>

datatype respuestaModelo = Lanza | Contenido "string option"

record cliente =
  completarTraduccion :: "string \<Rightarrow> respuestaModelo"
  completarFecha :: "string \<Rightarrow> string option \<Rightarrow> string \<Rightarrow> respuestaModelo"

record entorno =
  openai :: "cliente option"
  chrono_es_parseDate :: "string \<Rightarrow> DateTime \<Rightarrow> DateTime option"
  fromISO :: "string \<Rightarrow> string \<Rightarrow> DateTime"
  zonaSistema :: int
  zonaOffset :: "string \<Rightarrow> int"

text \<open>\<^verbatim>\<open>DateTime.fromISO(texto, { zone: zona })\<close>\<close>

definition fromISO_zona :: "entorno \<Rightarrow> string \<Rightarrow> string \<Rightarrow> DateTime" where
  "fromISO_zona env texto zona = enZona (zonaOffset env zona) (fromISO env texto zona)"

text \<open>\<^verbatim>\<open>s.replace(/['"]/g, '')\<close>\<close>

definition quitarComillas :: "string \<Rightarrow> string" where
  "quitarComillas s = filter (\<lambda>c. c \<noteq> CHR 0x27 \<and> c \<noteq> CHR 0x22) s"

text \<open>\<^verbatim>\<open>traducirCatalanaEspanol\<close>; \<open>None\<close> is \<^verbatim>\<open>null\<close>.\<close>

definition traducirCatalanaEspanol :: "entorno \<Rightarrow> string \<Rightarrow> string option" where
  "traducirCatalanaEspanol env expresion =
     (case openai env of
        None \<Rightarrow> None
      | Some cl \<Rightarrow>
          (case completarTraduccion cl expresion of
             Lanza \<Rightarrow> None
           | Contenido None \<Rightarrow> None
           | Contenido (Some c) \<Rightarrow>
               (let traduccion = trim c
                in if traduccion = [] then None else Some (trim (quitarComillas traduccion)))))"

text \<open>\<^verbatim>\<open>parsearConOpenAI\<close> answers \<^verbatim>\<open>null\<close>, the string \<^verbatim>\<open>'sin_definir'\<close> or a valid
  \<^verbatim>\<open>DateTime\<close>.\<close>

datatype resultadoIA = Nulo | SinDefinir | FechaIA DateTime

definition parsearConOpenAI :: "entorno \<Rightarrow> string \<Rightarrow> DateTime \<Rightarrow> string \<Rightarrow> resultadoIA" where
  "parsearConOpenAI env expresion fechaReferencia zonaHoraria =
     (case openai env of
        None \<Rightarrow> Nulo
      | Some cl \<Rightarrow>
          (let refDate = fromJSDate (zonaOffset env zonaHoraria) fechaReferencia;
               fechaRefISO = toISO refDate
           in case completarFecha cl expresion fechaRefISO zonaHoraria of
                Lanza \<Rightarrow> Nulo
              | Contenido None \<Rightarrow> SinDefinir
              | Contenido (Some c) \<Rightarrow>
                  (let fechaISO = trim c
                   in if fechaISO = [] \<or> toLowerCase fechaISO = ''sin_definir'' then SinDefinir
                      else
                        (let fechaLimpia = trim (quitarComillas fechaISO);
                             fechaParsed = fromISO_zona env fechaLimpia zonaHoraria
                         in if isValid fechaParsed then FechaIA fechaParsed else Nulo))))"

section \<open>The handler of \<^verbatim>\<open>POST /parse-fecha\<close>\<close>

text \<open>The request body, a JSON object: a field is \<open>None\<close> when it is missing, and a string
  otherwise. A field that holds a number, a list or an object, and a request with no JSON
  body at all, are outside the model.\<close>

record solicitud =
  referencia :: "string option"
  expresion_usuario :: "string option"
  zona_horaria :: "string option"

record respuesta =
  fecha_resuelta :: string
  dia_semana :: string
  hora :: string
  iso_datetime :: "string option"
  es_finde :: bool
  es_pasado :: bool

text \<open>A response is its status and its JSON body: the six fields, or
  \<^verbatim>\<open>{ error: true, mensaje }\<close>.\<close>

datatype cuerpo = Datos respuesta | ErrorMensaje string

type_synonym http = "nat \<times> cuerpo"

definition sinDefinir :: respuesta where
  "sinDefinir =
     \<lparr>fecha_resuelta = ''sin_definir'', dia_semana = ''sin_definir'', hora = ''sin_definir'',
      iso_datetime = Some ''sin_definir'', es_finde = False, es_pasado = False\<rparr>"

definition FALTAN_PARAMETROS :: string where
  "FALTAN_PARAMETROS =
     ''Faltan par'' @ [a_acute] @ ''metros requeridos: referencia y expresion_usuario.''"

definition REFERENCIA_INVALIDA :: string where
  "REFERENCIA_INVALIDA = ''Referencia inv'' @ [a_acute] @ ''lida.''"

definition NO_SE_PUDO :: string where
  "NO_SE_PUDO = ''No se pudo interpretar la fecha.''"

text \<open>\<^verbatim>\<open>s.replace(new RegExp(cat, 'gi'), esp)\<close> for a pattern of plain letters.\<close>

fun empiezaConCI :: "string \<Rightarrow> string \<Rightarrow> bool" where
  "empiezaConCI s [] = True"
| "empiezaConCI [] (p # ps) = False"
| "empiezaConCI (c # cs) (p # ps) = (canonicalize c = canonicalize p \<and> empiezaConCI cs ps)"

function reemplazar :: "string \<Rightarrow> string \<Rightarrow> string \<Rightarrow> string" where
  "reemplazar cat esp [] = []"
| "reemplazar cat esp (c # cs) =
     (if cat \<noteq> [] \<and> empiezaConCI (c # cs) cat
      then esp @ reemplazar cat esp (drop (length cat) (c # cs))
      else c # reemplazar cat esp cs)"
  by pat_completeness auto
termination
  by (relation "measure (\<lambda>(cat, esp, s). length s)") (auto simp: neq_Nil_conv)

definition traducciones :: "(string \<times> string) list" where
  "traducciones =
     [(''dilluns'', ''lunes''), (''dimarts'', ''martes''), (''dimecres'', s_miercoles),
      (''dijous'', ''jueves''), (''divendres'', ''viernes''), (''dissabte'', s_sabado),
      (''diumenge'', ''domingo''), (''avui'', ''hoy''), (s_dema, s_manana), (''ahir'', ''ayer''),
      (''setmana'', ''semana''), (''mes'', ''mes''), (''any'', s_ano)]"

text \<open>Source lines 397-441: chrono on the expression; for Catalan also on the expression
  with the table's words replaced, and on the model's translation.\<close>

definition parsearConChrono :: "entorno \<Rightarrow> string \<Rightarrow> DateTime \<Rightarrow> DateTime option" where
  "parsearConChrono env expresion refDateJS =
     (if detectarIdioma expresion = Ca then
        (let parsed1 = chrono_es_parseDate env expresion refDateJS;
             parsed2 =
               (if parsed1 = None then
                  (let expresionTraducida =
                         foldl (\<lambda>e (cat, esp). reemplazar cat esp e) expresion traducciones
                   in if expresionTraducida \<noteq> expresion
                      then chrono_es_parseDate env expresionTraducida refDateJS
                      else parsed1)
                else parsed1)
         in if parsed2 = None \<and> openai env \<noteq> None then
              (case traducirCatalanaEspanol env expresion of
                 None \<Rightarrow> parsed2
               | Some traduccion \<Rightarrow>
                   if traduccion = [] then parsed2
                   else chrono_es_parseDate env traduccion refDateJS)
            else parsed2)
      else chrono_es_parseDate env expresion refDateJS)"

text \<open>Source lines 389-483: the date the stages settle on, or the early answer. The
  preprocessor, chrono, the corrector and the model fallback receive the reference as a
  \<^verbatim>\<open>Date\<close> (\<^verbatim>\<open>refDate.toJSDate()\<close>); chrono's \<^verbatim>\<open>Date\<close> is seen in the request's zone
  (\<^verbatim>\<open>DateTime.fromJSDate(parsed, { zone: zona_horaria })\<close>).\<close>

datatype resolucion = Fecha DateTime | Indefinida | NoInterpretada

definition resolverFecha :: "entorno \<Rightarrow> string \<Rightarrow> DateTime \<Rightarrow> string \<Rightarrow> resolucion" where
  "resolverFecha env expresion refDate zona =
     (case preprocesarExpresion (zonaSistema env) expresion (toJSDate refDate) of
        Some preprocesado \<Rightarrow> Fecha preprocesado
      | None \<Rightarrow>
          (case parsearConChrono env expresion (toJSDate refDate) of
             None \<Rightarrow>
               (case parsearConOpenAI env expresion (toJSDate refDate) zona of
                  SinDefinir \<Rightarrow> Indefinida
                | FechaIA fechaOpenAI \<Rightarrow> Fecha fechaOpenAI
                | Nulo \<Rightarrow> NoInterpretada)
           | Some parsed \<Rightarrow>
               (let fecha = validarYCorregirFecha (zonaSistema env)
                              (fromJSDate (zonaOffset env zona) parsed) (toJSDate refDate) expresion
                in if menor fecha refDate \<and> openai env \<noteq> None then
                     (case parsearConOpenAI env expresion (toJSDate refDate) zona of
                        SinDefinir \<Rightarrow> Fecha fecha
                      | FechaIA fechaOpenAI \<Rightarrow>
                          if mayorIgual fechaOpenAI refDate then Fecha fechaOpenAI else Fecha fecha
                      | Nulo \<Rightarrow> Fecha fecha)
                   else Fecha fecha)))"

text \<open>Source lines 485-507: the six fields of a resolved date, each rendered in the zone the
  date is in: the process's zone for a date of the preprocessor or one the corrector moved,
  the request's zone otherwise.\<close>

definition ensamblar :: "string \<Rightarrow> DateTime \<Rightarrow> DateTime \<Rightarrow> respuesta" where
  "ensamblar expresion refDate fecha =
     (let idioma = detectarIdioma expresion;
          dia = toFormat fecha (Fmt_cccc idioma);
          diasFinde = (if idioma = Ca then [''dissabte'', ''diumenge'', s_sabado, ''domingo'']
                       else [s_sabado, ''domingo''])
      in \<lparr>fecha_resuelta = toFormat fecha Fmt_yyyy_MM_dd,
          dia_semana = dia,
          hora = toFormat fecha Fmt_HH_mm,
          iso_datetime = toISO fecha,
          es_finde = list_ex (\<lambda>d. js_includes (toLowerCase dia) (toLowerCase d)) diasFinde,
          es_pasado = menor fecha refDate\<rparr>)"

definition parse_fecha :: "entorno \<Rightarrow> solicitud \<Rightarrow> http" where
  "parse_fecha env req =
     (let zona = (case zona_horaria req of None \<Rightarrow> ''Europe/Madrid'' | Some z \<Rightarrow> z)
      in case (referencia req, expresion_usuario req) of
           (Some ref, Some expresion) \<Rightarrow>
             if ref = [] \<or> expresion = [] then (400, ErrorMensaje FALTAN_PARAMETROS)
             else if \<not> esExpresionTemporalClara expresion then (200, Datos sinDefinir)
             else
               (let refDate = fromISO_zona env ref zona
                in if \<not> isValid refDate then (400, ErrorMensaje REFERENCIA_INVALIDA)
                   else
                     (case resolverFecha env expresion refDate zona of
                        Fecha fecha \<Rightarrow> (200, Datos (ensamblar expresion refDate fecha))
                      | Indefinida \<Rightarrow> (200, Datos sinDefinir)
                      | NoInterpretada \<Rightarrow> (200, ErrorMensaje NO_SE_PUDO)))
         | _ \<Rightarrow> (400, ErrorMensaje FALTAN_PARAMETROS))"

section \<open>Reading \<^verbatim>\<open>iso_datetime\<close> back\<close>

text \<open>\<^verbatim>\<open>DateTime.fromISO\<close> on a text of the shape \<^verbatim>\<open>toISO\<close> writes for a year of four digits,
  \<^verbatim>\<open>YYYY-MM-DDTHH:mm:ss.SSS+hh:mm\<close>: the fields are taken as written (a text that
  \<^verbatim>\<open>toISO\<close> wrote has them in range), and the result is in the zone of the offset
  written. Any other text is not read.\<close>

definition campo :: "string \<Rightarrow> nat \<Rightarrow> nat \<Rightarrow> string" where
  "campo s desde n = take n (drop desde s)"

definition leerISO :: "string \<Rightarrow> DateTime" where
  "leerISO s =
     (if length s = 29
         \<and> list_all esDigito (campo s 0 4 @ campo s 5 2 @ campo s 8 2 @ campo s 11 2 @ campo s 14 2
                              @ campo s 17 2 @ campo s 20 3 @ campo s 24 2 @ campo s 27 2)
         \<and> campo s 4 1 = ''-'' \<and> campo s 7 1 = ''-'' \<and> campo s 10 1 = ''T''
         \<and> campo s 13 1 = '':'' \<and> campo s 16 1 = '':'' \<and> campo s 19 1 = ''.''
         \<and> (campo s 23 1 = ''+'' \<or> campo s 23 1 = ''-'') \<and> campo s 26 1 = '':''
      then
        (let z0 = parseInt (campo s 24 2) * 60 + parseInt (campo s 27 2);
             z = (if campo s 23 1 = ''-'' then - z0 else z0)
         in recortar z
              (dias_desde_civil (parseInt (campo s 0 4)) (parseInt (campo s 5 2))
                   (parseInt (campo s 8 2)) * msPorDia
               + parseInt (campo s 11 2) * msPorHora + parseInt (campo s 14 2) * msPorMinuto
               + parseInt (campo s 17 2) * msPorSegundo + parseInt (campo s 20 3)))
      else Invalid)"

text \<open>The round trip of the specification: the emitted \<^verbatim>\<open>iso_datetime\<close> is parsed back in
  the request's zone, of offset \<open>z\<close>, and formatted again as \<^verbatim>\<open>yyyy-MM-dd\<close> and
  \<^verbatim>\<open>HH:mm\<close>.\<close>

definition idaYVuelta :: "int \<Rightarrow> string \<Rightarrow> string \<times> string" where
  "idaYVuelta z texto =
     (let d = enZona z (leerISO texto) in (toFormat d Fmt_yyyy_MM_dd, toFormat d Fmt_HH_mm))"

section \<open>Example environments and requests\<close>

text \<open>A client whose date completion always answers \<open>r\<close> and whose translation fails.\<close>

definition clienteEjemplo :: "respuestaModelo \<Rightarrow> cliente" where
  "clienteEjemplo r = \<lparr>completarTraduccion = (\<lambda>_. Lanza), completarFecha = (\<lambda>_ _ _. r)\<rparr>"

text \<open>An environment where the process's zone and every zone of a request are UTC+01:00,
  whose chrono answers the instant of \<open>parsed\<close> for every text and whose \<^verbatim>\<open>fromISO\<close> reads
  the one text \<open>fst lectura\<close> as \<open>snd lectura\<close> and nothing else.\<close>

definition entornoEjemplo :: "cliente option \<Rightarrow> DateTime option \<Rightarrow> string \<times> DateTime \<Rightarrow> entorno" where
  "entornoEjemplo cl parsed lectura =
     \<lparr>openai = cl,
      chrono_es_parseDate = (\<lambda>_ _. map_option toJSDate parsed),
      fromISO = (\<lambda>texto _. if texto = fst lectura then snd lectura else Invalid),
      zonaSistema = 60,
      zonaOffset = (\<lambda>_. 60)\<rparr>"

text \<open>The same environment in a process whose zone is UTC, as in a container that sets no
  zone.\<close>

definition entornoEnUTC :: "cliente option \<Rightarrow> DateTime option \<Rightarrow> string \<times> DateTime \<Rightarrow> entorno" where
  "entornoEnUTC cl parsed lectura =
     \<lparr>openai = cl,
      chrono_es_parseDate = (\<lambda>_ _. map_option toJSDate parsed),
      fromISO = (\<lambda>texto _. if texto = fst lectura then snd lectura else Invalid),
      zonaSistema = 0,
      zonaOffset = (\<lambda>_. 60)\<rparr>"


definition solicitudEjemplo :: "string \<Rightarrow> string \<Rightarrow> solicitud" where
  "solicitudEjemplo ref expresion =
     \<lparr>referencia = Some ref, expresion_usuario = Some expresion,
      zona_horaria = Some ''Europe/Madrid''\<rparr>"

text \<open>Tuesday 2025-11-04 09:00 and Friday 2025-11-07 10:00, as the requests write them and as
  \<^verbatim>\<open>fromISO\<close> reads them.\<close>

definition martes4 :: "string \<times> DateTime" where
  "martes4 = (''2025-11-04T09:00:00+01:00'', fecha_local 2025 11 4 9 0)"

definition viernes7 :: "string \<times> DateTime" where
  "viernes7 = (''2025-11-07T10:00:00+01:00'', fecha_local 2025 11 7 10 0)"

definition sabado8 :: "string \<times> DateTime" where
  "sabado8 = (''2025-11-08T10:00:00+01:00'', fecha_local 2025 11 8 10 0)"

section \<open>The character functions on the bits of a character\<close>

text \<open>The same functions read off the eight bits of the code unit (least significant first).
  They are consequences of the definitions above and serve as code equations, so that
  evaluating an expression on a concrete string does not walk the tables.\<close>

lemma minuscula_bits [code]:
  "minuscula (Char b0 b1 b2 b3 b4 b5 b6 b7) =
     Char b0 b1 b2 b3 b4
       (b5 \<or> (b6 \<and> (if b7 then \<not> (b4 \<and> b2 \<and> b1 \<and> b0)
                       else (b0 \<or> b1 \<or> b2 \<or> b3 \<or> b4) \<and> \<not> (b4 \<and> b3 \<and> (b2 \<or> (b1 \<and> b0))))))
       b6 b7"
  by (induct b0; induct b1; induct b2; induct b3; induct b4; induct b5; induct b6; induct b7;
      code_simp)

lemma canonicalize_bits [code]:
  "canonicalize (Char b0 b1 b2 b3 b4 b5 b6 b7) =
     Char b0 b1 b2 b3 b4
       (b5 \<and> \<not> (b6 \<and> (if b7 then \<not> (b4 \<and> b2 \<and> b1 \<and> b0)
                       else (b0 \<or> b1 \<or> b2 \<or> b3 \<or> b4) \<and> \<not> (b4 \<and> b3 \<and> (b2 \<or> (b1 \<and> b0))))))
       b6 b7"
  by (induct b0; induct b1; induct b2; induct b3; induct b4; induct b5; induct b6; induct b7;
      code_simp)

lemma esEspacio_bits [code]:
  "esEspacio (Char b0 b1 b2 b3 b4 b5 b6 b7) =
     (\<not> b6 \<and> \<not> b4 \<and>
      (if b5 then \<not> b0 \<and> \<not> b1 \<and> \<not> b2 \<and> \<not> b3
       else \<not> b7 \<and> b3 \<and> (if b2 then \<not> b1 else b0 \<or> b1)))"
  by (induct b0; induct b1; induct b2; induct b3; induct b4; induct b5; induct b6; induct b7;
      code_simp)

lemma esDigito_bits [code]:
  "esDigito (Char b0 b1 b2 b3 b4 b5 b6 b7) =
     (\<not> b7 \<and> \<not> b6 \<and> b5 \<and> b4 \<and> (\<not> b3 \<or> (\<not> b2 \<and> \<not> b1)))"
  by (induct b0; induct b1; induct b2; induct b3; induct b4; induct b5; induct b6; induct b7;
      code_simp)

lemma esPalabra_bits [code]:
  "esPalabra (Char b0 b1 b2 b3 b4 b5 b6 b7) =
     (\<not> b7 \<and>
      (if b6 then ((b0 \<or> b1 \<or> b2 \<or> b3 \<or> b4) \<and> \<not> (b4 \<and> b3 \<and> (b2 \<or> (b1 \<and> b0))))
                  \<or> (\<not> b5 \<and> b4 \<and> b3 \<and> b2 \<and> b1 \<and> b0)
       else b5 \<and> b4 \<and> (\<not> b3 \<or> (\<not> b2 \<and> \<not> b1))))"
  by (induct b0; induct b1; induct b2; induct b3; induct b4; induct b5; induct b6; induct b7;
      code_simp)

section \<open>Facts about dates\<close>

lemma diasSemana_rango: "diasSemana w = Some X \<Longrightarrow> 1 \<le> X \<and> X \<le> 7"
  unfolding diasSemana_def by (auto split: if_splits)

lemma diaObjetivoDe_rango: "diaObjetivoDe m = Some X \<Longrightarrow> 1 \<le> X \<and> X \<le> 7"
  unfolding diaObjetivoDe_def
  by (auto split: option.splits if_splits dest: diasSemana_rango)

lemma diaSemanaDe_rango: "1 \<le> diaSemanaDe t \<and> diaSemanaDe t \<le> 7"
  unfolding diaSemanaDe_def by arith

lemma weekday_rango: "weekday d = Some w \<Longrightarrow> 1 \<le> w \<and> w \<le> 7"
  using diaSemanaDe_rango by (cases d) auto

text \<open>Seeing a date in another zone changes neither the instant nor the validity.\<close>

lemma menor_enZona [simp]:
  "menor (enZona z a) b = menor a b" "menor a (enZona z b) = menor a b"
  by (cases a; cases b; simp add: algebra_simps)+

lemma mayorIgual_enZona [simp]:
  "mayorIgual (enZona z a) b = mayorIgual a b" "mayorIgual a (enZona z b) = mayorIgual a b"
  by (cases a; cases b; simp add: algebra_simps)+

lemma menor_JSDate [simp]:
  "menor (fromJSDate z a) b = menor a b" "menor a (fromJSDate z b) = menor a b"
  "menor (toJSDate a) b = menor a b" "menor a (toJSDate b) = menor a b"
  by (simp_all add: fromJSDate_def toJSDate_def)

lemma isValid_enZona [simp]: "isValid (enZona z d) = isValid d"
  by (cases d) (simp_all add: isValid_def)

lemma enZona_enZona [simp]: "enZona z (enZona z' d) = enZona z d"
  by (cases d) (simp_all add: algebra_simps)

lemma enZona_misma [simp]: "enZona z (DT t z) = DT t z"
  by simp

lemma fromJSDate_toJSDate [simp]: "fromJSDate z (toJSDate d) = enZona z d"
  by (simp add: fromJSDate_def toJSDate_def)

lemma enZona_recortar [simp]: "enZona z (recortar z t) = recortar z t"
  by (simp add: recortar_def)

lemma enZona_fecha_local [simp]: "enZona 60 (fecha_local y m d h mi) = fecha_local y m d h mi"
  by (simp add: fecha_local_def fecha_en_def)

lemma dias_hasta_el_proximo:
  fixes X hoy :: int
  assumes "1 \<le> X \<and> X \<le> 7" "1 \<le> hoy \<and> hoy \<le> 7"
  shows "(if X - hoy \<le> 0 then X - hoy + 7 else X - hoy)
               = (if (X - hoy) mod 7 = 0 then 7 else (X - hoy) mod 7)"
proof -
  define d where "d = X - hoy"
  have r: "-6 \<le> d \<and> d \<le> 6" using assms unfolding d_def by linarith
  consider "d = 0" | "1 \<le> d" | "d \<le> -1" by linarith
  then have "(if d \<le> 0 then d + 7 else d) = (if d mod 7 = 0 then 7 else d mod 7)"
  proof cases
    case 1
    then show ?thesis by simp
  next
    case 2
    then have "d mod 7 = d" using r by simp
    then show ?thesis using 2 by simp
  next
    case 3
    have "(d + 7) mod 7 = d + 7"
      by (rule mod_pos_pos_trivial) (use 3 r in linarith)+
    moreover have "(d + 7) mod 7 = d mod 7" by simp
    ultimately have "d mod 7 = d + 7" by simp
    then show ?thesis using 3 r by simp
  qed
  then show ?thesis unfolding d_def .
qed

lemmas ms_defs = msPorDia_def msPorHora_def msPorMinuto_def msPorSegundo_def

lemma campos_de_fecha_compuesta:
  assumes h: "0 \<le> h" "h \<le> 23" and m: "0 \<le> m" "m \<le> 59"
    and t_def: "t = a * msPorDia + h * msPorHora + m * msPorMinuto"
  shows "t div msPorDia = a" and "horaDe t = h" and "minutoDe t = m"
proof -
  define x where "x = h * msPorHora + m * msPorMinuto"
  define y where "y = m * msPorMinuto"
  have x: "0 \<le> x" "x < msPorDia" using h m unfolding x_def ms_defs by linarith+
  have y: "0 \<le> y" "y < msPorHora" using m unfolding y_def ms_defs by linarith+
  have t: "t = a * msPorDia + x" unfolding t_def x_def by simp
  have xd: "x div msPorDia = 0" "x mod msPorDia = x"
    using x by (simp_all add: div_pos_pos_trivial mod_pos_pos_trivial)
  have yd: "y div msPorHora = 0" "y mod msPorHora = y"
    using y by (simp_all add: div_pos_pos_trivial mod_pos_pos_trivial)
  have pos: "msPorDia \<noteq> 0" "msPorHora \<noteq> 0" "msPorMinuto \<noteq> 0" by (simp_all add: ms_defs)
  show d: "t div msPorDia = a"
    unfolding t using xd pos by simp
  have tm: "t mod msPorDia = x" unfolding t using xd by simp
  have "x div msPorHora = h"
    using yd pos unfolding x_def y_def by simp
  then show "horaDe t = h" unfolding horaDe_def tm .
  have "t = (a * 24 + h) * msPorHora + y"
    unfolding t_def y_def ms_defs by (simp add: algebra_simps)
  then have "t mod msPorHora = y" using yd by simp
  moreover have "y div msPorMinuto = m" unfolding y_def using pos by simp
  ultimately show "minutoDe t = m" unfolding minutoDe_def by simp
qed


lemma div_mas_dias: "(r + n * msPorDia) div msPorDia = r div msPorDia + n"
  by (simp add: msPorDia_def)

text \<open>What the corrected date is when it is valid.\<close>

lemma fecha_corregida:
  assumes k: "1 \<le> k" and h: "0 \<le> h" "h \<le> 23" and m: "0 \<le> m" "m \<le> 59"
    and c: "set_dt (plus_days (DT r z) k) [Hour \<mapsto> h, Minute \<mapsto> m, Second \<mapsto> 0, Millisecond \<mapsto> 0] = DT t z'"
  shows "t = (r div msPorDia + k) * msPorDia + h * msPorHora + m * msPorMinuto \<and> z' = z"
proof -
  from c have p: "plus_days (DT r z) k = DT (r + k * msPorDia) z"
    by (cases "\<bar>r + k * msPorDia\<bar> \<le> maxTime") (simp_all add: recortar_def)
  from c show ?thesis
    unfolding p
    by (cases "\<bar>(r div msPorDia + k) * msPorDia + h * msPorHora + m * msPorMinuto\<bar> \<le> maxTime")
       (simp_all add: recortar_def valorDe_def div_mas_dias)
qed

lemma resto_de_la_hora:
  "minutoDe t * msPorMinuto + segundoDe t * msPorSegundo + miliDe t = t mod msPorHora"
proof -
  have d: "t mod msPorHora = ((t mod msPorHora) div msPorMinuto) * msPorMinuto + (t mod msPorHora) mod msPorMinuto" by simp
  have e: "(t mod msPorHora) mod msPorMinuto = t mod msPorMinuto"
    unfolding ms_defs by (simp add: mod_mod_cancel)
  have f: "t mod msPorMinuto = ((t mod msPorMinuto) div msPorSegundo) * msPorSegundo + (t mod msPorMinuto) mod msPorSegundo" by simp
  have g: "(t mod msPorMinuto) mod msPorSegundo = t mod msPorSegundo"
    unfolding ms_defs by (simp add: mod_mod_cancel)
  show ?thesis
    unfolding minutoDe_def segundoDe_def miliDe_def
    using d e f g by linarith
qed

lemma descomponer:
  "t = (t div msPorDia) * msPorDia + horaDe t * msPorHora + t mod msPorHora"
proof -
  have a: "t = (t div msPorDia) * msPorDia + t mod msPorDia" by simp
  have b: "t mod msPorDia = ((t mod msPorDia) div msPorHora) * msPorHora + (t mod msPorDia) mod msPorHora" by simp
  have c: "(t mod msPorDia) mod msPorHora = t mod msPorHora"
    unfolding ms_defs by (simp add: mod_mod_cancel)
  show ?thesis unfolding horaDe_def using a b c by linarith
qed

text \<open>Setting a later hour of the same day gives a later date, or none.\<close>

lemma set_hora:
  "set_dt (DT t z) [Hour \<mapsto> h] = recortar z (t + (h - horaDe t) * msPorHora)"
proof -
  have "(h - horaDe t) * msPorHora = h * msPorHora - horaDe t * msPorHora"
    by (simp add: left_diff_distrib)
  then have "(t div msPorDia) * msPorDia + h * msPorHora + minutoDe t * msPorMinuto
          + segundoDe t * msPorSegundo + miliDe t
        = t + (h - horaDe t) * msPorHora"
    using descomponer[of t] resto_de_la_hora[of t] by linarith
  then show ?thesis by (simp add: valorDe_def)
qed
















lemma horaDe_compuesta:
  assumes "0 \<le> h" "h \<le> 23" "0 \<le> x" "x < msPorHora"
  shows "horaDe (a * msPorDia + h * msPorHora + x) = h"
proof -
  define y where "y = h * msPorHora + x"
  have y: "0 \<le> y" "y < msPorDia" using assms unfolding y_def ms_defs by linarith+
  have "(a * msPorDia + y) mod msPorDia = y"
    using y by (simp add: mod_pos_pos_trivial)
  moreover have "y div msPorHora = h"
    unfolding y_def using assms by (simp add: msPorHora_def div_pos_pos_trivial)
  ultimately show ?thesis unfolding horaDe_def y_def by (simp add: add.assoc)
qed

lemma corregirFechaPasada_conserva_hora:
  assumes "corregirFechaPasada fecha ref n = DT t z"
  shows "\<exists>f zf. fecha = DT f zf \<and> horaDe t = horaDe f \<and> minutoDe t = minutoDe f"
proof (cases "menor fecha ref \<and> esDiaSemanaEspecifico n \<and> \<not> esConteoDias n")
  case False
  then have "corregirFechaPasada fecha ref n = fecha"
    by (auto simp: corregirFechaPasada_def)
  with assms have "fecha = DT t z" by simp
  then show ?thesis by simp
next
  case True
  then obtain f zf r zr where fr: "fecha = DT f zf" "ref = DT r zr"
    by (cases fecha; cases ref) auto
  define k0 where "k0 = diaSemanaDe f - diaSemanaDe r"
  define k where "k = (if k0 \<le> 0 then k0 + 7 else k0)"
  have k1: "1 \<le> k"
    using diaSemanaDe_rango[of f] diaSemanaDe_rango[of r] unfolding k_def k0_def by auto
  have hr: "0 \<le> horaDe f \<and> horaDe f \<le> 23" unfolding horaDe_def ms_defs by arith
  have mr: "0 \<le> minutoDe f \<and> minutoDe f \<le> 59" unfolding minutoDe_def ms_defs by arith
  have "corregirFechaPasada fecha ref n =
        set_dt (plus_days (DT r zr) k)
          [Hour \<mapsto> horaDe f, Minute \<mapsto> minutoDe f, Second \<mapsto> 0, Millisecond \<mapsto> 0]"
    using True fr unfolding corregirFechaPasada_def k_def k0_def by (simp add: Let_def)
  with assms have "set_dt (plus_days (DT r zr) k)
          [Hour \<mapsto> horaDe f, Minute \<mapsto> minutoDe f, Second \<mapsto> 0, Millisecond \<mapsto> 0] = DT t z"
    by simp
  from fecha_corregida[OF k1 _ _ _ _ this] hr mr
  have t: "t = (r div msPorDia + k) * msPorDia + horaDe f * msPorHora + minutoDe f * msPorMinuto"
    by simp
  note cf = campos_de_fecha_compuesta[OF _ _ _ _ t]
  have "horaDe t = horaDe f" using cf(2) hr mr by simp
  moreover have "minutoDe t = minutoDe f" using cf(3) hr mr by simp
  ultimately show ?thesis using fr by simp
qed

lemma validar_hora_7:
  assumes a: "coincide (toLowerCase e) rx_hora7" "\<not> coincide (toLowerCase e) rx_7am"
    and h: "hour fecha = Some 7"
    and v: "isValid (validarYCorregirFecha zs fecha refDate e)"
  shows "hour (validarYCorregirFecha zs fecha refDate e) = Some 19"
proof -
  define n where "n = toLowerCase e"
  define c1 where "c1 = corregirFechaPasada fecha (fromJSDate zs refDate) n"
  define c2 where "c2 = horaPorDefecto c1 n"
  have res: "validarYCorregirFecha zs fecha refDate e = hora7Tarde c2 n"
    unfolding validarYCorregirFecha_def Let_def n_def c1_def c2_def ..
  have "c1 \<noteq> Invalid"
  proof
    assume "c1 = Invalid"
    then have "hora7Tarde c2 n = Invalid"
      unfolding c2_def by (simp add: horaPorDefecto_def hora7Tarde_def)
    with v res show False by (simp add: isValid_def)
  qed
  then obtain t1 z1 where t1: "c1 = DT t1 z1" by (cases c1) auto
  from corregirFechaPasada_conserva_hora[OF t1[unfolded c1_def]] h
  have h1: "horaDe t1 = 7" by auto
  have c2: "c2 = DT t1 z1" unfolding c2_def t1 using h1 by (simp add: horaPorDefecto_def)
  have r: "hora7Tarde c2 n = recortar z1 (t1 + (19 - 7) * msPorHora)"
    unfolding c2 using a h1 set_hora[where t = t1 and z = z1 and h = 19] by (simp add: hora7Tarde_def n_def)
  with v res have val: "hora7Tarde c2 n = DT (t1 + (19 - 7) * msPorHora) z1"
    by (cases "\<bar>t1 + (19 - 7) * msPorHora\<bar> \<le> maxTime") (simp_all add: recortar_def isValid_def)
  have e: "t1 + (19 - 7) * msPorHora
             = (t1 div msPorDia) * msPorDia + 19 * msPorHora + t1 mod msPorHora"
    using descomponer[of t1] unfolding h1 by simp
  have "horaDe ((t1 div msPorDia) * msPorDia + 19 * msPorHora + t1 mod msPorHora) = 19"
    by (rule horaDe_compuesta) (simp_all add: msPorHora_def)
  then have "horaDe (t1 + (19 - 7) * msPorHora) = 19" unfolding e .
  then show ?thesis unfolding res val by simp
qed



section \<open>The claims\<close>




text \<open>
  C2 (the code departs from the claim). The claim has a candidate of a count of days never
  moved, and only an expression with an article and a weekday moved. In the corrector of
  \<^verbatim>\<open>src/unnamed/part_002\<close> the count of days is looked for with the Spanish word only
  ("dia", "dias", with or without the accent) although the Catalan \<^verbatim>\<open>dins de\<close> is among its prefixes: "el
  divendres, dins de 2 dies" is not taken for a count of days, and a candidate of Friday
  2025-11-07 00:00 on Saturday 2025-11-08 10:00 is moved to Friday 2025-11-14, at 12:00. The
  corrector of \<^verbatim>\<open>src/server.js\<close> has neither guard: it moves the same candidate for
  "viernes", without an article, to 2025-11-14 at 14:00, and on Friday 2025-11-07 10:00 it
  moves a candidate of Saturday 2025-11-01 00:00 for "el sabado, en 2 dias" (written with
  its accents), a count of days, past the weekend to Monday 2025-11-10 at 14:00, where the
  corrector of \<^verbatim>\<open>part_002\<close> leaves the first at 2025-11-07 12:00 and the second at
  2025-11-01 12:00.
\<close>

theorem conteo_de_dias_corregido:
  "(let e = ''el divendres, dins de 2 dies''
    in js_includes (toLowerCase e) ''dins de 2 dies'' \<and>
       esDiaSemanaEspecifico (toLowerCase e) \<and> \<not> esConteoDias (toLowerCase e) \<and>
       menor (fecha_local 2025 11 7 0 0) (snd sabado8) \<and>
       validarYCorregirFecha 60 (fecha_local 2025 11 7 0 0) (toJSDate (snd sabado8)) e
         = fecha_local 2025 11 14 12 0)
   \<and> (\<not> esDiaSemanaEspecifico (toLowerCase ''viernes'') \<and>
      validarYCorregirFecha_server 60 (fecha_local 2025 11 7 0 0) (toJSDate (snd sabado8))
        ''viernes'' = fecha_local 2025 11 14 14 0 \<and>
      validarYCorregirFecha 60 (fecha_local 2025 11 7 0 0) (toJSDate (snd sabado8))
        ''viernes'' = fecha_local 2025 11 7 12 0)
   \<and> (let e = ''el '' @ s_sabado @ '', en 2 '' @ s_dia @ ''s''
      in esDiaSemanaEspecifico (toLowerCase e) \<and> esConteoDias (toLowerCase e) \<and>
         menor (fecha_local 2025 11 1 0 0) (snd viernes7) \<and>
         validarYCorregirFecha_server 60 (fecha_local 2025 11 1 0 0) (toJSDate (snd viernes7)) e
           = fecha_local 2025 11 10 14 0 \<and>
         validarYCorregirFecha 60 (fecha_local 2025 11 1 0 0) (toJSDate (snd viernes7)) e
           = fecha_local 2025 11 1 12 0)"
proof -
  have a: "(let e = ''el divendres, dins de 2 dies''
    in js_includes (toLowerCase e) ''dins de 2 dies'' \<and>
       esDiaSemanaEspecifico (toLowerCase e) \<and> \<not> esConteoDias (toLowerCase e) \<and>
       menor (fecha_local 2025 11 7 0 0) (snd sabado8) \<and>
       validarYCorregirFecha 60 (fecha_local 2025 11 7 0 0) (toJSDate (snd sabado8)) e
         = fecha_local 2025 11 14 12 0)"
    by code_simp
  have b: "\<not> esDiaSemanaEspecifico (toLowerCase ''viernes'') \<and>
      validarYCorregirFecha_server 60 (fecha_local 2025 11 7 0 0) (toJSDate (snd sabado8))
        ''viernes'' = fecha_local 2025 11 14 14 0 \<and>
      validarYCorregirFecha 60 (fecha_local 2025 11 7 0 0) (toJSDate (snd sabado8))
        ''viernes'' = fecha_local 2025 11 7 12 0"
    by code_simp
  have c: "(let e = ''el '' @ s_sabado @ '', en 2 '' @ s_dia @ ''s''
      in esDiaSemanaEspecifico (toLowerCase e) \<and> esConteoDias (toLowerCase e) \<and>
         menor (fecha_local 2025 11 1 0 0) (snd viernes7) \<and>
         validarYCorregirFecha_server 60 (fecha_local 2025 11 1 0 0) (toJSDate (snd viernes7)) e
           = fecha_local 2025 11 10 14 0 \<and>
         validarYCorregirFecha 60 (fecha_local 2025 11 1 0 0) (toJSDate (snd viernes7)) e
           = fecha_local 2025 11 1 12 0)"
    by code_simp
  show ?thesis by (rule conjI[OF a conjI[OF b c]])
qed

text \<open>
  C3 (amended). An expression of the form "DAY de la semana que viene" (also with "proxima", "vinent",
  "propera", ...) that no earlier rule takes, naming the weekday \<open>X\<close>,
  resolves to the reference plus the days to next Monday, \<open>(8 - hoy) mod 7\<close> with 7 for 0,
  plus \<open>X - 1\<close> days, at 14:00:00.000, the hour the preprocessor sets, which is not the
  default hour 12:00 of the corrector. Today's weekday and the result are those of the
  process's zone. For Tuesday
  2025-11-04 09:00 and "el martes de la semana que viene" that is Tuesday 2025-11-11, not the
  Tuesday of the current week.
\<close>

theorem regla_semana_que_viene:
  "(\<forall>zs e refDate X hoy.
      js_match e rx_pasadoMananaHora = None \<and> js_match e rx_demaPassatHora = None \<and>
      \<not> js_includes (trim (toLowerCase e)) s_pasado_manana \<and>
      \<not> js_includes (trim (toLowerCase e)) s_dema_passat \<and>
      diaObjetivoDe (matchSemanaQueViene (trim (toLowerCase e))) = Some X \<and>
      weekday (fromJSDate zs refDate) = Some hoy
      \<longrightarrow> preprocesarExpresion zs e refDate =
            Some (set_dt (plus_days (fromJSDate zs refDate)
                    ((if (8 - hoy) mod 7 = 0 then 7 else (8 - hoy) mod 7) + (X - 1)))
                  [Hour \<mapsto> 14, Minute \<mapsto> 0, Second \<mapsto> 0, Millisecond \<mapsto> 0]))
   \<and> preprocesarExpresion 60 ''el martes de la semana que viene'' (toJSDate (fecha_local 2025 11 4 9 0))
       = Some (fecha_local 2025 11 11 14 0)
   \<and> weekday (fecha_local 2025 11 4 9 0) = Some 2
   \<and> weekday (fecha_local 2025 11 11 14 0) = Some 2"
proof -
  have gen: "preprocesarExpresion zs e refDate =
            Some (set_dt (plus_days (fromJSDate zs refDate)
                    ((if (8 - hoy) mod 7 = 0 then 7 else (8 - hoy) mod 7) + (X - 1)))
                  [Hour \<mapsto> 14, Minute \<mapsto> 0, Second \<mapsto> 0, Millisecond \<mapsto> 0])"
    if h: "js_match e rx_pasadoMananaHora = None" "js_match e rx_demaPassatHora = None"
      "\<not> js_includes (trim (toLowerCase e)) s_pasado_manana"
      "\<not> js_includes (trim (toLowerCase e)) s_dema_passat"
      "diaObjetivoDe (matchSemanaQueViene (trim (toLowerCase e))) = Some X"
      "weekday (fromJSDate zs refDate) = Some hoy"
    for zs e refDate X hoy
  proof -
    from diaObjetivoDe_rango[OF h(5)] have "(X - 1) mod 7 = X - 1" by simp
    then show ?thesis
      using h
      by (simp add: preprocesarExpresion_def reglaSemanaQueViene_def diasHastaLunesProxima_def
            enPunto_def Let_def)
  qed
  have s1: "preprocesarExpresion 60 ''el martes de la semana que viene'' (toJSDate (fecha_local 2025 11 4 9 0))
       = Some (fecha_local 2025 11 11 14 0)"
    by code_simp
  have s2: "weekday (fecha_local 2025 11 4 9 0) = Some 2" by code_simp
  have s3: "weekday (fecha_local 2025 11 11 14 0) = Some 2" by code_simp
  show ?thesis using gen s1 s2 s3 by blast
qed

theorem regla_semana_que_viene_witness:
  "preprocesarExpresion 60 ''el viernes de la semana que viene'' (toJSDate (fecha_local 2025 11 4 9 0))
     = Some (set_dt (plus_days (fecha_local 2025 11 4 9 0) (6 + (5 - 1)))
              [Hour \<mapsto> 14, Minute \<mapsto> 0, Second \<mapsto> 0, Millisecond \<mapsto> 0])
   \<and> set_dt (plus_days (fecha_local 2025 11 4 9 0) (6 + (5 - 1)))
              [Hour \<mapsto> 14, Minute \<mapsto> 0, Second \<mapsto> 0, Millisecond \<mapsto> 0]
       = fecha_local 2025 11 14 14 0"
proof -
  let ?e = "''el viernes de la semana que viene''"
  let ?r = "fecha_local 2025 11 4 9 0"
  have z: "fromJSDate 60 (toJSDate ?r) = ?r" by simp
  have h1: "js_match ?e rx_pasadoMananaHora = None" by code_simp
  have h2: "js_match ?e rx_demaPassatHora = None" by code_simp
  have h3: "\<not> js_includes (trim (toLowerCase ?e)) s_pasado_manana" by code_simp
  have h4: "\<not> js_includes (trim (toLowerCase ?e)) s_dema_passat" by code_simp
  have h5: "diaObjetivoDe (matchSemanaQueViene (trim (toLowerCase ?e))) = Some 5" by code_simp
  have h6: "weekday ?r = Some 2" by code_simp
  have v: "set_dt (plus_days ?r (6 + (5 - 1)))
              [Hour \<mapsto> 14, Minute \<mapsto> 0, Second \<mapsto> 0, Millisecond \<mapsto> 0]
       = fecha_local 2025 11 14 14 0" by code_simp
  note g = conjunct1[OF regla_semana_que_viene, rule_format, where zs = 60 and e = ?e and refDate = "toJSDate ?r"
      and X = 5 and hoy = 2, unfolded z]
  show ?thesis using g h1 h2 h3 h4 h5 h6 v by simp
qed

text \<open>The hour of the scenario's result is 14, while the default hour of the same snapshot,
  the one the corrector gives a candidate with no time, is 12.\<close>

theorem hora_14_no_es_la_hora_por_defecto:
  "map_option hour
     (preprocesarExpresion 60 ''el martes de la semana que viene''
        (toJSDate (fecha_local 2025 11 4 9 0))) = Some (Some 14)
   \<and> validarYCorregirFecha 60 (fecha_local 2025 11 11 0 0) (toJSDate (fecha_local 2025 11 4 9 0))
         ''el martes'' = fecha_local 2025 11 11 12 0
   \<and> hour (fecha_local 2025 11 11 12 0) = Some 12"
  by code_simp

text \<open>
  C4 (amended). An expression of the form "DAY que viene" or "DAY que ve" that no earlier
  rule takes, naming the weekday \<open>X\<close>, resolves to the reference plus \<open>diff\<close> days at
  14:00:00.000, where \<open>diff = (X - hoy) mod 7\<close> with 7 for 0; on a Friday a \<open>diff\<close> of 1 or 2
  (Saturday, Sunday) becomes 3, the following Monday. Today's weekday and the result are
  those of the process's zone. For Friday 2025-11-07 10:00 and
  "el sabado que viene" (written with its accent) the result is Monday 2025-11-10, three days after the reference.
\<close>

theorem regla_que_viene:
  "(\<forall>zs e refDate X hoy.
      js_match e rx_pasadoMananaHora = None \<and> js_match e rx_demaPassatHora = None \<and>
      \<not> js_includes (trim (toLowerCase e)) s_pasado_manana \<and>
      \<not> js_includes (trim (toLowerCase e)) s_dema_passat \<and>
      diaObjetivoDe (matchSemanaQueViene (trim (toLowerCase e))) = None \<and>
      diaObjetivoDe (js_match (trim (toLowerCase e)) rx_queViene) = Some X \<and>
      weekday (fromJSDate zs refDate) = Some hoy
      \<longrightarrow> preprocesarExpresion zs e refDate =
            Some (set_dt (plus_days (fromJSDate zs refDate)
                    (let diff = (if (X - hoy) mod 7 = 0 then 7 else (X - hoy) mod 7)
                     in if hoy = 5 \<and> diff \<le> 2 then 3 else diff))
                  [Hour \<mapsto> 14, Minute \<mapsto> 0, Second \<mapsto> 0, Millisecond \<mapsto> 0]))
   \<and> preprocesarExpresion 60 (''el '' @ s_sabado @ '' que viene'') (toJSDate (fecha_local 2025 11 7 10 0))
       = Some (fecha_local 2025 11 10 14 0)
   \<and> weekday (fecha_local 2025 11 7 10 0) = Some 5
   \<and> weekday (fecha_local 2025 11 10 14 0) = Some 1"
proof -
  have gen: "preprocesarExpresion zs e refDate =
            Some (set_dt (plus_days (fromJSDate zs refDate)
                    (let diff = (if (X - hoy) mod 7 = 0 then 7 else (X - hoy) mod 7)
                     in if hoy = 5 \<and> diff \<le> 2 then 3 else diff))
                  [Hour \<mapsto> 14, Minute \<mapsto> 0, Second \<mapsto> 0, Millisecond \<mapsto> 0])"
    if h: "js_match e rx_pasadoMananaHora = None" "js_match e rx_demaPassatHora = None"
      "\<not> js_includes (trim (toLowerCase e)) s_pasado_manana"
      "\<not> js_includes (trim (toLowerCase e)) s_dema_passat"
      "diaObjetivoDe (matchSemanaQueViene (trim (toLowerCase e))) = None"
      "diaObjetivoDe (js_match (trim (toLowerCase e)) rx_queViene) = Some X"
      "weekday (fromJSDate zs refDate) = Some hoy"
    for zs e refDate X hoy
  proof -
    have X: "1 \<le> X \<and> X \<le> 7" using diaObjetivoDe_rango[OF h(6)] .
    have hoy: "1 \<le> hoy \<and> hoy \<le> 7" using weekday_rango[OF h(7)] .
    have d: "(if X - hoy \<le> 0 then X - hoy + 7 else X - hoy)
               = (if (X - hoy) mod 7 = 0 then 7 else (X - hoy) mod 7)"
      using dias_hasta_el_proximo[OF X hoy] .
    have pre: "preprocesarExpresion zs e refDate = Some (reglaQueViene (fromJSDate zs refDate) X)"
      using h by (simp add: preprocesarExpresion_def Let_def)
    have r: "reglaQueViene (fromJSDate zs refDate) X =
        set_dt (plus_days (fromJSDate zs refDate)
          (if hoy = 5 \<and> (if X - hoy \<le> 0 then X - hoy + 7 else X - hoy) \<le> 2 then 3
           else (if X - hoy \<le> 0 then X - hoy + 7 else X - hoy))) (enPunto 14)"
      unfolding reglaQueViene_def h(7) by (simp only: option.case Let_def)
    show ?thesis unfolding pre r d enPunto_def Let_def ..
  qed
  have s1: "preprocesarExpresion 60 (''el '' @ s_sabado @ '' que viene'') (toJSDate (fecha_local 2025 11 7 10 0))
       = Some (fecha_local 2025 11 10 14 0)"
    by code_simp
  have s2: "weekday (fecha_local 2025 11 7 10 0) = Some 5" by code_simp
  have s3: "weekday (fecha_local 2025 11 10 14 0) = Some 1" by code_simp
  show ?thesis using gen s1 s2 s3 by blast
qed

text \<open>The rule at "dimarts que ve" on Tuesday 2025-11-04: the Tuesday a week later.\<close>

theorem regla_que_viene_witness:
  "preprocesarExpresion 60 ''dimarts que ve'' (toJSDate (fecha_local 2025 11 4 9 0))
     = Some (fecha_local 2025 11 11 14 0)"
proof -
  let ?e = "''dimarts que ve''"
  let ?r = "fecha_local 2025 11 4 9 0"
  have z: "fromJSDate 60 (toJSDate ?r) = ?r" by simp
  have h1: "js_match ?e rx_pasadoMananaHora = None" by code_simp
  have h2: "js_match ?e rx_demaPassatHora = None" by code_simp
  have h3: "\<not> js_includes (trim (toLowerCase ?e)) s_pasado_manana" by code_simp
  have h4: "\<not> js_includes (trim (toLowerCase ?e)) s_dema_passat" by code_simp
  have h5: "diaObjetivoDe (matchSemanaQueViene (trim (toLowerCase ?e))) = None" by code_simp
  have h6: "diaObjetivoDe (js_match (trim (toLowerCase ?e)) rx_queViene) = Some 2" by code_simp
  have h7: "weekday ?r = Some 2" by code_simp
  have v: "set_dt (plus_days ?r 7) [Hour \<mapsto> 14, Minute \<mapsto> 0, Second \<mapsto> 0, Millisecond \<mapsto> 0]
       = fecha_local 2025 11 11 14 0" by code_simp
  note g = conjunct1[OF regla_que_viene, rule_format, where zs = 60 and e = ?e and refDate = "toJSDate ?r"
      and X = 2 and hoy = 2, unfolded z]
  show ?thesis using g h1 h2 h3 h4 h5 h6 h7 v by (simp add: Let_def)
qed

text \<open>The claim's example names "the Monday after next"; the code answers the Monday that
  follows the reference, 2025-11-10, and not 2025-11-17.\<close>

theorem sabado_que_viene_es_el_lunes_siguiente:
  "map_option (\<lambda>f. toFormat f Fmt_yyyy_MM_dd)
     (preprocesarExpresion 60 (''el '' @ s_sabado @ '' que viene'') (toJSDate (fecha_local 2025 11 7 10 0)))
     = Some ''2025-11-10''
   \<and> preprocesarExpresion 60 (''el '' @ s_sabado @ '' que viene'') (toJSDate (fecha_local 2025 11 7 10 0))
       \<noteq> Some (fecha_local 2025 11 17 14 0)"
  by code_simp

text \<open>
  C5 (amended). When the lower-cased expression matches \<^verbatim>\<open>a\s+(las?|les?)\s+7\b\<close>, that is,
  it contains "a las 7" or "a les 7" with the 7 not directly followed by a letter, a digit or
  an underscore, and does not match \<^verbatim>\<open>7\s*(am|a\.m\.|de la manana)\<close>, and the candidate's
  hour is 7, the corrector's result has hour 19 (whenever that result is a date a
  \<^verbatim>\<open>Date\<close> can hold). End to end: for the reference 2025-11-04T09:00:00+01:00, the
  expression "el viernes a las 7" and a chrono that answers Friday 2025-11-07 07:00, the
  response is 200 with \<^verbatim>\<open>fecha_resuelta\<close> 2025-11-07, \<^verbatim>\<open>hora\<close> 19:00,
  \<^verbatim>\<open>es_finde\<close> false and \<^verbatim>\<open>es_pasado\<close> false, whatever the process's zone is.
\<close>

theorem a_las_siete:
  "(\<forall>zs fecha refDate e.
      coincide (toLowerCase e) rx_hora7 \<and> \<not> coincide (toLowerCase e) rx_7am \<and>
      hour fecha = Some 7 \<and> isValid (validarYCorregirFecha zs fecha refDate e)
      \<longrightarrow> hour (validarYCorregirFecha zs fecha refDate e) = Some 19)
   \<and> (\<forall>env :: entorno.
        fromISO_zona env (fst martes4) ''Europe/Madrid'' = snd martes4 \<and>
        chrono_es_parseDate env ''el viernes a las 7'' (toJSDate (snd martes4))
          = Some (toJSDate (fecha_local 2025 11 7 7 0))
        \<longrightarrow> parse_fecha env (solicitudEjemplo (fst martes4) ''el viernes a las 7'')
            = (200, Datos \<lparr>fecha_resuelta = ''2025-11-07'', dia_semana = ''viernes'',
                 hora = ''19:00'',
                 iso_datetime = Some ''2025-11-07T19:00:00.000+01:00'',
                 es_finde = False, es_pasado = False\<rparr>))"
proof (intro conjI allI impI)
  fix zs fecha refDate e
  assume "coincide (toLowerCase e) rx_hora7 \<and> \<not> coincide (toLowerCase e) rx_7am \<and>
      hour fecha = Some 7 \<and> isValid (validarYCorregirFecha zs fecha refDate e)"
  then show "hour (validarYCorregirFecha zs fecha refDate e) = Some 19"
    using validar_hora_7 by blast
next
  fix env :: entorno
  let ?e = "''el viernes a las 7''"
  let ?n = "toLowerCase ''el viernes a las 7''"
  let ?r = "snd martes4"
  let ?c = "fecha_local 2025 11 7 7 0"
  let ?f = "fecha_local 2025 11 7 19 0"
  assume a: "fromISO_zona env (fst martes4) ''Europe/Madrid'' = snd martes4 \<and>
        chrono_es_parseDate env ?e (toJSDate ?r) = Some (toJSDate ?c)"
  have r60: "?r = DT 1762246800000 60" by code_simp
  have zo: "zonaOffset env ''Europe/Madrid'' = 60"
    using a unfolding fromISO_zona_def r60
    by (cases "fromISO env (fst martes4) ''Europe/Madrid''") simp_all
  have f1: "esExpresionTemporalClara ?e" by code_simp
  have f2: "isValid ?r" by code_simp
  have m1: "js_match ?e rx_pasadoMananaHora = None" by code_simp
  have m2: "js_match ?e rx_demaPassatHora = None" by code_simp
  have m3: "\<not> js_includes (trim ?n) s_pasado_manana" by code_simp
  have m4: "\<not> js_includes (trim ?n) s_dema_passat" by code_simp
  have m5: "diaObjetivoDe (matchSemanaQueViene (trim ?n)) = None" by code_simp
  have m6: "diaObjetivoDe (js_match (trim ?n) rx_queViene) = None" by code_simp
  have f3: "preprocesarExpresion zs ?e d = None" for zs d
    using m1 m2 m3 m4 m5 m6 by (simp add: preprocesarExpresion_def Let_def)
  have f4: "detectarIdioma ?e = Es" by code_simp
  have nm: "\<not> menor ?c ?r" by code_simp
  have c1: "corregirFechaPasada ?c (fromJSDate zs (toJSDate ?r)) ?n = ?c" for zs
    using nm by (simp add: corregirFechaPasada_def)
  have c2: "horaPorDefecto ?c ?n = ?c" by code_simp
  have c3: "hora7Tarde ?c ?n = ?f" by code_simp
  have f5: "validarYCorregirFecha zs ?c (toJSDate ?r) ?e = ?f" for zs
    unfolding validarYCorregirFecha_def Let_def c1 c2 c3 ..
  have f6: "\<not> menor ?f ?r" by code_simp
  have f7: "toFormat ?f Fmt_yyyy_MM_dd = ''2025-11-07''" by code_simp
  have f8: "toFormat ?f Fmt_HH_mm = ''19:00''" by code_simp
  have f9: "toFormat ?f (Fmt_cccc Es) = ''viernes''" by code_simp
  have f10: "\<not> js_includes (toLowerCase ''viernes'')
                  (toLowerCase [CHR ''s'', a_acute, CHR ''b'', CHR ''a'', CHR ''d'', CHR ''o''])"
    "\<not> js_includes (toLowerCase ''viernes'') (toLowerCase ''domingo'')"
    by code_simp+
  have f11: "toISO ?f = Some ''2025-11-07T19:00:00.000+01:00''" by code_simp
  have c: "parsearConChrono env ?e (toJSDate ?r) = Some (toJSDate ?c)"
    unfolding parsearConChrono_def f4 using a by simp
  have res: "resolverFecha env ?e ?r ''Europe/Madrid'' = Fecha ?f"
    unfolding resolverFecha_def f3 c using f5 f6 by (simp add: Let_def zo)
  have ens: "ensamblar ?e ?r ?f =
        \<lparr>fecha_resuelta = ''2025-11-07'', dia_semana = ''viernes'', hora = ''19:00'',
         iso_datetime = Some ''2025-11-07T19:00:00.000+01:00'', es_finde = False,
         es_pasado = False\<rparr>"
    by (simp add: ensamblar_def Let_def f4 f6 f7 f8 f9 f10 f11)
  have ne: "fst martes4 \<noteq> []" by code_simp
  show "parse_fecha env (solicitudEjemplo (fst martes4) ?e)
            = (200, Datos \<lparr>fecha_resuelta = ''2025-11-07'', dia_semana = ''viernes'',
                 hora = ''19:00'',
                 iso_datetime = Some ''2025-11-07T19:00:00.000+01:00'',
                 es_finde = False, es_pasado = False\<rparr>)"
    unfolding parse_fecha_def solicitudEjemplo_def
    using a f1 f2 res ens ne by (simp add: Let_def)
qed

text \<open>The scenario in a concrete environment, and a past Monday 07:00 for "El lunes a las
  7", which becomes the next Monday at 19:00.\<close>

theorem a_las_siete_witness:
  "(let env = entornoEjemplo None (Some (fecha_local 2025 11 7 7 0)) martes4
    in parse_fecha env (solicitudEjemplo (fst martes4) ''el viernes a las 7'')
       = (200, Datos \<lparr>fecha_resuelta = ''2025-11-07'', dia_semana = ''viernes'', hora = ''19:00'',
            iso_datetime = Some ''2025-11-07T19:00:00.000+01:00'', es_finde = False,
            es_pasado = False\<rparr>))
   \<and> validarYCorregirFecha 60 (fecha_local 2025 11 3 7 0) (toJSDate (snd martes4))
         ''El lunes a las 7''
       = fecha_local 2025 11 10 19 0
   \<and> hour (fecha_local 2025 11 3 7 0) = Some 7
   \<and> hour (fecha_local 2025 11 10 19 0) = Some 19"
proof -
  define env where "env = entornoEjemplo None (Some (fecha_local 2025 11 7 7 0)) martes4"
  let ?e = "''El lunes a las 7''"
  have e1: "fromISO_zona env (fst martes4) ''Europe/Madrid'' = snd martes4"
    unfolding env_def entornoEjemplo_def fromISO_zona_def martes4_def by simp
  have e2: "chrono_es_parseDate env ''el viernes a las 7'' (toJSDate (snd martes4))
          = Some (toJSDate (fecha_local 2025 11 7 7 0))"
    unfolding env_def entornoEjemplo_def by simp
  note s = conjunct2[OF a_las_siete, rule_format, of env]
  have a: "parse_fecha env (solicitudEjemplo (fst martes4) ''el viernes a las 7'')
       = (200, Datos \<lparr>fecha_resuelta = ''2025-11-07'', dia_semana = ''viernes'', hora = ''19:00'',
            iso_datetime = Some ''2025-11-07T19:00:00.000+01:00'', es_finde = False,
            es_pasado = False\<rparr>)"
    using s e1 e2 by simp
  have h1: "coincide (toLowerCase ?e) rx_hora7" by code_simp
  have h2: "\<not> coincide (toLowerCase ?e) rx_7am" by code_simp
  have h3: "hour (fecha_local 2025 11 3 7 0) = Some 7" by code_simp
  have v: "validarYCorregirFecha 60 (fecha_local 2025 11 3 7 0) (toJSDate (snd martes4)) ?e
       = fecha_local 2025 11 10 19 0" by code_simp
  have h4: "isValid (fecha_local 2025 11 10 19 0)" by code_simp
  note g = conjunct1[OF a_las_siete, rule_format, where zs = 60
      and fecha = "fecha_local 2025 11 3 7 0" and refDate = "toJSDate (snd martes4)" and e = ?e]
  have b: "hour (fecha_local 2025 11 10 19 0) = Some 19"
    using g h1 h2 h3 h4 unfolding v by simp
  show ?thesis using a b v h3 unfolding env_def by (simp add: Let_def)
qed

text \<open>"el viernes a las 7h" contains "a las 7" and has no morning qualifier, but the 7 is
  followed by a letter: a candidate at 07:00 stays at 07:00.\<close>

theorem a_las_7h_sigue_a_las_7:
  "js_includes (toLowerCase ''el viernes a las 7h'') ''a las 7''
   \<and> \<not> coincide (toLowerCase ''el viernes a las 7h'') rx_7am
   \<and> hour (fecha_local 2025 11 7 7 0) = Some 7
   \<and> validarYCorregirFecha 60 (fecha_local 2025 11 7 7 0) (toJSDate (snd martes4))
         ''el viernes a las 7h''
       = fecha_local 2025 11 7 7 0
   \<and> parse_fecha (entornoEjemplo None (Some (fecha_local 2025 11 7 7 0)) martes4)
         (solicitudEjemplo (fst martes4) ''el viernes a las 7h'')
       = (200, Datos \<lparr>fecha_resuelta = ''2025-11-07'', dia_semana = ''viernes'', hora = ''07:00'',
            iso_datetime = Some ''2025-11-07T07:00:00.000+01:00'', es_finde = False,
            es_pasado = False\<rparr>)"
proof (intro conjI)
  show "js_includes (toLowerCase ''el viernes a las 7h'') ''a las 7''" by code_simp
  show "\<not> coincide (toLowerCase ''el viernes a las 7h'') rx_7am" by code_simp
  show "hour (fecha_local 2025 11 7 7 0) = Some 7" by code_simp
  show "validarYCorregirFecha 60 (fecha_local 2025 11 7 7 0) (toJSDate (snd martes4))
         ''el viernes a las 7h''
       = fecha_local 2025 11 7 7 0" by code_simp
  show "parse_fecha (entornoEjemplo None (Some (fecha_local 2025 11 7 7 0)) martes4)
         (solicitudEjemplo (fst martes4) ''el viernes a las 7h'')
       = (200, Datos \<lparr>fecha_resuelta = ''2025-11-07'', dia_semana = ''viernes'', hora = ''07:00'',
            iso_datetime = Some ''2025-11-07T07:00:00.000+01:00'', es_finde = False,
            es_pasado = False\<rparr>)" by code_simp
qed

text \<open>
  C6 (the code departs from the claim). The classifier looks for a temporal keyword as a
  substring before it compares with the greetings, and "en", "dia" and "dia" with an accent
  are keywords. Of the twenty-two curated greetings, five contain a keyword and are
  classified as temporally clear: "buenos dias" (with and without accent), "buenas tardes",
  "buenas noches" and "bon dia"; the other seventeen are classified as not clear.
\<close>

theorem saludos_clasificados:
  "soloSaludos =
     [''hola'', ''buenos d'' @ [i_acute] @ ''as'', ''buenos dias'', ''buenas tardes'',
      ''buenas noches'', ''bon dia'', ''bona tarda'', ''bona nit'', ''adeu'', ''adios'',
      ''hasta luego'', ''gracias'', ''gr'' @ [a_grave] @ ''cies'', ''de nada'', ''per favor'',
      ''por favor'', ''si'', ''no'', ''ok'', ''vale'', ''perfecto'', ''perfecte'']
   \<and> map esExpresionTemporalClara soloSaludos =
     [False, True, True, True, True, True, False, False, False, False,
      False, False, False, False, False,
      False, False, False, False, False, False, False]
   \<and> js_includes ''buenas tardes'' ''en''
   \<and> ''en'' \<in> set palabrasTemporales"
  by code_simp

text \<open>What \<^verbatim>\<open>parsearConOpenAI\<close> answers, case by case. Without a client it answers
  \<^verbatim>\<open>null\<close>; so it does when the completion throws. It answers the sentinel exactly when
  the content is missing, or is empty after trimming, or equals \<^verbatim>\<open>sin_definir\<close> after
  trimming and lower-casing. Any other content has its quotes removed, is trimmed and goes to
  \<^verbatim>\<open>DateTime.fromISO\<close>: a valid result is returned, an invalid one gives \<^verbatim>\<open>null\<close>.\<close>

lemma parsearConOpenAI_casos:
  "(openai env = None \<longrightarrow> parsearConOpenAI env e refDate z = Nulo)
   \<and> (\<forall>cl. openai env = Some cl \<longrightarrow>
        (let r = completarFecha cl e (toISO (fromJSDate (zonaOffset env z) refDate)) z;
             res = parsearConOpenAI env e refDate z
         in (r = Lanza \<longrightarrow> res = Nulo)
          \<and> (res = SinDefinir \<longleftrightarrow>
               r = Contenido None \<or>
               (\<exists>c. r = Contenido (Some c) \<and>
                    (trim c = [] \<or> toLowerCase (trim c) = ''sin_definir'')))
          \<and> (\<forall>c. r = Contenido (Some c) \<and> trim c \<noteq> [] \<and>
                  toLowerCase (trim c) \<noteq> ''sin_definir'' \<longrightarrow>
                res = (let d = fromISO_zona env (trim (quitarComillas (trim c))) z
                       in if isValid d then FechaIA d else Nulo))))"
  by (auto simp: parsearConOpenAI_def Let_def split: respuestaModelo.splits option.splits)

text \<open>
  C7 (the code departs from the claim). The claim has the response stripped of quotes and
  whitespace and then compared with the sentinel. \<^verbatim>\<open>parsearConOpenAI\<close> trims, compares, and
  removes the quotes only afterwards, on the way to \<^verbatim>\<open>DateTime.fromISO\<close>. A date between
  double quotes is read, but the sentinel between double quotes is not recognised although
  the cleaned text equals it: the function answers \<^verbatim>\<open>null\<close>, and for "hola, que tal" on
  2025-11-04, which chrono does not read, the handler answers 200 with \<^verbatim>\<open>error: true\<close>
  where the same answer without quotes gets the \<^verbatim>\<open>sin_definir\<close> fields.
\<close>

theorem centinela_entre_comillas:
  "(let c = [CHR 0x22] @ ''sin_definir'' @ [CHR 0x22];
        env = entornoEjemplo (Some (clienteEjemplo (Contenido (Some c)))) None martes4
    in trim (quitarComillas (trim c)) = ''sin_definir'' \<and>
       parsearConOpenAI env ''hola, que tal'' (toJSDate (snd martes4)) ''Europe/Madrid'' = Nulo \<and>
       parse_fecha env (solicitudEjemplo (fst martes4) ''hola, que tal'')
         = (200, ErrorMensaje NO_SE_PUDO))
   \<and> (let env = entornoEjemplo (Some (clienteEjemplo (Contenido (Some ''sin_definir'')))) None
                  martes4
      in parsearConOpenAI env ''hola, que tal'' (toJSDate (snd martes4)) ''Europe/Madrid''
           = SinDefinir \<and>
         parse_fecha env (solicitudEjemplo (fst martes4) ''hola, que tal'')
           = (200, Datos sinDefinir))
   \<and> (let c = [CHR 0x22] @ fst martes4 @ [CHR 0x22];
          env = entornoEjemplo (Some (clienteEjemplo (Contenido (Some c)))) None martes4
      in parsearConOpenAI env ''hola, que tal'' (toJSDate (snd martes4)) ''Europe/Madrid''
           = FechaIA (snd martes4))"
proof (intro conjI)
  show "(let c = [CHR 0x22] @ ''sin_definir'' @ [CHR 0x22];
        env = entornoEjemplo (Some (clienteEjemplo (Contenido (Some c)))) None martes4
    in trim (quitarComillas (trim c)) = ''sin_definir'' \<and>
       parsearConOpenAI env ''hola, que tal'' (toJSDate (snd martes4)) ''Europe/Madrid'' = Nulo \<and>
       parse_fecha env (solicitudEjemplo (fst martes4) ''hola, que tal'')
         = (200, ErrorMensaje NO_SE_PUDO))"
    by code_simp
  show "(let env = entornoEjemplo (Some (clienteEjemplo (Contenido (Some ''sin_definir'')))) None
                  martes4
      in parsearConOpenAI env ''hola, que tal'' (toJSDate (snd martes4)) ''Europe/Madrid''
           = SinDefinir \<and>
         parse_fecha env (solicitudEjemplo (fst martes4) ''hola, que tal'')
           = (200, Datos sinDefinir))"
    by code_simp
  show "(let c = [CHR 0x22] @ fst martes4 @ [CHR 0x22];
          env = entornoEjemplo (Some (clienteEjemplo (Contenido (Some c)))) None martes4
      in parsearConOpenAI env ''hola, que tal'' (toJSDate (snd martes4)) ''Europe/Madrid''
           = FechaIA (snd martes4))"
    by code_simp
qed

text \<open>
  C8 (amended). A request without \<^verbatim>\<open>referencia\<close> or without \<^verbatim>\<open>expresion_usuario\<close> (missing
  or empty) is answered 400 with \<^verbatim>\<open>{ error: true, mensaje }\<close> whatever the collaborators
  do. With both present the classifier runs first: an expression that is not temporally
  clear is answered 200 with the \<^verbatim>\<open>sin_definir\<close> fields also when the reference is invalid;
  a temporally clear expression with an invalid reference is answered 400; and a temporally
  clear expression that the preprocessor, chrono and the model all fail on is answered 200
  with \<^verbatim>\<open>error: true\<close>.
\<close>

theorem validacion_de_la_solicitud:
  "((referencia req = None \<or> referencia req = Some [] \<or>
     expresion_usuario req = None \<or> expresion_usuario req = Some [])
      \<longrightarrow> parse_fecha env req = (400, ErrorMensaje FALTAN_PARAMETROS))
   \<and> (\<forall>ref e. referencia req = Some ref \<and> ref \<noteq> [] \<and> expresion_usuario req = Some e \<and> e \<noteq> [] \<longrightarrow>
        (let zona = (case zona_horaria req of None \<Rightarrow> ''Europe/Madrid'' | Some z \<Rightarrow> z);
             refDate = fromISO_zona env ref zona
         in (\<not> esExpresionTemporalClara e \<longrightarrow> parse_fecha env req = (200, Datos sinDefinir))
          \<and> (esExpresionTemporalClara e \<and> \<not> isValid refDate
                \<longrightarrow> parse_fecha env req = (400, ErrorMensaje REFERENCIA_INVALIDA))
          \<and> (esExpresionTemporalClara e \<and> isValid refDate \<and>
              preprocesarExpresion (zonaSistema env) e (toJSDate refDate) = None \<and>
              parsearConChrono env e (toJSDate refDate) = None \<and>
              parsearConOpenAI env e (toJSDate refDate) zona = Nulo
                \<longrightarrow> parse_fecha env req = (200, ErrorMensaje NO_SE_PUDO))))"
  by (auto simp: parse_fecha_def resolverFecha_def Let_def split: option.splits)

text \<open>The four cases at concrete requests, without a model client and with a chrono that
  finds nothing.\<close>

theorem validacion_de_la_solicitud_witness:
  "(let env = entornoEjemplo None None martes4 in
    parse_fecha env \<lparr>referencia = None, expresion_usuario = Some ''el viernes'', zona_horaria = None\<rparr>
      = (400, ErrorMensaje FALTAN_PARAMETROS) \<and>
    parse_fecha env (solicitudEjemplo ''ayer'' ''el viernes'') = (400, ErrorMensaje REFERENCIA_INVALIDA) \<and>
    parse_fecha env (solicitudEjemplo ''ayer'' ''hola'') = (200, Datos sinDefinir) \<and>
    parse_fecha env (solicitudEjemplo (fst martes4) ''el viernes'') = (200, ErrorMensaje NO_SE_PUDO))"
proof -
  define env where "env = entornoEjemplo None None martes4"
  define z where "z = ''Europe/Madrid''"
  have c1: "esExpresionTemporalClara ''el viernes''" by code_simp
  have c2: "\<not> esExpresionTemporalClara ''hola''" by code_simp
  have i1: "\<not> isValid (fromISO_zona env ''ayer'' z)"
    unfolding env_def entornoEjemplo_def martes4_def fromISO_zona_def by (simp add: isValid_def)
  have r: "fromISO_zona env (fst martes4) z = snd martes4"
    unfolding env_def entornoEjemplo_def fromISO_zona_def martes4_def by simp
  have i2: "isValid (fromISO_zona env (fst martes4) z)"
    unfolding r by code_simp
  have zs: "zonaSistema env = 60" unfolding env_def entornoEjemplo_def by simp
  have ne: "fst martes4 \<noteq> []" by code_simp
  have p: "preprocesarExpresion (zonaSistema env) ''el viernes'' (toJSDate (snd martes4)) = None"
    unfolding zs by code_simp
  have q: "parsearConChrono env ''el viernes'' (toJSDate (snd martes4)) = None"
    unfolding env_def by code_simp
  have o: "parsearConOpenAI env ''el viernes'' (toJSDate (snd martes4)) z = Nulo"
    unfolding env_def parsearConOpenAI_def entornoEjemplo_def by simp
  have a: "parse_fecha env \<lparr>referencia = None, expresion_usuario = Some ''el viernes'', zona_horaria = None\<rparr>
      = (400, ErrorMensaje FALTAN_PARAMETROS)"
    using validacion_de_la_solicitud[of "\<lparr>referencia = None, expresion_usuario = Some ''el viernes'', zona_horaria = None\<rparr>" env]
    by simp
  have b: "parse_fecha env (solicitudEjemplo ''ayer'' ''el viernes'') = (400, ErrorMensaje REFERENCIA_INVALIDA)"
    using validacion_de_la_solicitud[of "solicitudEjemplo ''ayer'' ''el viernes''" env] c1 i1
    by (simp add: solicitudEjemplo_def z_def Let_def)
  have c: "parse_fecha env (solicitudEjemplo ''ayer'' ''hola'') = (200, Datos sinDefinir)"
    using validacion_de_la_solicitud[of "solicitudEjemplo ''ayer'' ''hola''" env] c2
    by (simp add: solicitudEjemplo_def z_def Let_def)
  have d: "parse_fecha env (solicitudEjemplo (fst martes4) ''el viernes'') = (200, ErrorMensaje NO_SE_PUDO)"
    using validacion_de_la_solicitud[of "solicitudEjemplo (fst martes4) ''el viernes''" env]
      c1 i2 p q o ne unfolding r
    by (simp add: solicitudEjemplo_def z_def[symmetric] Let_def r)
  show ?thesis using a b c d unfolding env_def by (simp add: Let_def)
qed

text \<open>An invalid reference with a greeting is answered 200, not 400.\<close>

theorem referencia_invalida_con_saludo:
  "parse_fecha (entornoEjemplo None None martes4) (solicitudEjemplo ''ayer'' ''hola'')
     = (200, Datos sinDefinir)
   \<and> \<not> isValid (fromISO_zona (entornoEjemplo None None martes4) ''ayer'' ''Europe/Madrid'')"
  by code_simp

text \<open>The response's \<^verbatim>\<open>iso_datetime\<close>, \<^verbatim>\<open>fecha_resuelta\<close> and \<^verbatim>\<open>hora\<close> are renderings
  of one date in the zone that date is in: for a year from 0 to 9999 the first begins with
  the second, a "T" and the third.\<close>

lemma iso_datetime_de_fecha_valida:
  assumes "civil_desde_dias (t div msPorDia) = (y, m, d)" and "0 \<le> y" and "y \<le> 9999"
  shows "\<exists>resto. iso_datetime (ensamblar e refDate (DT t z))
           = Some (fecha_resuelta (ensamblar e refDate (DT t z)) @ ''T''
                   @ hora (ensamblar e refDate (DT t z)) @ resto)"
  using assms by (simp add: ensamblar_def Let_def)

text \<open>
  C9 (the code departs from the claim). The preprocessor and the corrector build their dates
  with \<^verbatim>\<open>DateTime.fromJSDate(fechaReferencia)\<close>, without the request's zone, so such a date
  is in the process's zone and the response renders it there. In a process whose zone is
  UTC, the request of 2025-11-04T09:00:00+01:00 for "el martes de la semana que viene" in
  Europe/Madrid is answered with \<^verbatim>\<open>hora\<close> 14:00 and \<^verbatim>\<open>iso_datetime\<close>
  2025-11-11T14:00:00.000+00:00; parsed back in Europe/Madrid that is 15:00, not the
  \<^verbatim>\<open>hora\<close> of the response. In a process whose zone is the request's the round trip
  gives the response's fields back.
\<close>

theorem ida_y_vuelta_en_otra_zona:
  "parse_fecha (entornoEnUTC None None martes4)
     (solicitudEjemplo (fst martes4) ''el martes de la semana que viene'')
   = (200, Datos \<lparr>fecha_resuelta = ''2025-11-11'', dia_semana = ''martes'', hora = ''14:00'',
        iso_datetime = Some ''2025-11-11T14:00:00.000+00:00'', es_finde = False,
        es_pasado = False\<rparr>)
   \<and> zonaOffset (entornoEnUTC None None martes4) ''Europe/Madrid'' = 60
   \<and> idaYVuelta 60 ''2025-11-11T14:00:00.000+00:00'' = (''2025-11-11'', ''15:00'')
   \<and> parse_fecha (entornoEjemplo None None martes4)
     (solicitudEjemplo (fst martes4) ''el martes de la semana que viene'')
   = (200, Datos \<lparr>fecha_resuelta = ''2025-11-11'', dia_semana = ''martes'', hora = ''14:00'',
        iso_datetime = Some ''2025-11-11T14:00:00.000+01:00'', es_finde = False,
        es_pasado = False\<rparr>)
   \<and> idaYVuelta 60 ''2025-11-11T14:00:00.000+01:00'' = (''2025-11-11'', ''14:00'')
   \<and> leerISO ''2025-11-04T09:00:00.000+01:00'' = snd martes4"
proof (intro conjI)
  show "parse_fecha (entornoEnUTC None None martes4)
     (solicitudEjemplo (fst martes4) ''el martes de la semana que viene'')
   = (200, Datos \<lparr>fecha_resuelta = ''2025-11-11'', dia_semana = ''martes'', hora = ''14:00'',
        iso_datetime = Some ''2025-11-11T14:00:00.000+00:00'', es_finde = False,
        es_pasado = False\<rparr>)"
    by code_simp
  show "zonaOffset (entornoEnUTC None None martes4) ''Europe/Madrid'' = 60"
    by (simp add: entornoEnUTC_def)
  show "idaYVuelta 60 ''2025-11-11T14:00:00.000+00:00'' = (''2025-11-11'', ''15:00'')"
    by code_simp
  show "parse_fecha (entornoEjemplo None None martes4)
     (solicitudEjemplo (fst martes4) ''el martes de la semana que viene'')
   = (200, Datos \<lparr>fecha_resuelta = ''2025-11-11'', dia_semana = ''martes'', hora = ''14:00'',
        iso_datetime = Some ''2025-11-11T14:00:00.000+01:00'', es_finde = False,
        es_pasado = False\<rparr>)"
    by code_simp
  show "idaYVuelta 60 ''2025-11-11T14:00:00.000+01:00'' = (''2025-11-11'', ''14:00'')"
    by code_simp
  show "leerISO ''2025-11-04T09:00:00.000+01:00'' = snd martes4"
    by code_simp
qed

text \<open>Two requests with an hour out of range, evaluated.\<close>

lemma respuesta_hora_99:
  "parse_fecha (entornoEjemplo None None martes4)
     (solicitudEjemplo (fst martes4) (s_pasado_manana @ '' a las 99''))
   = (200, Datos \<lparr>fecha_resuelta = ''2025-11-10'', dia_semana = ''lunes'', hora = ''03:00'',
        iso_datetime = Some ''2025-11-10T03:00:00.000+01:00'', es_finde = False,
        es_pasado = False\<rparr>)"
  by code_simp

lemma respuesta_hora_enorme:
  "parse_fecha (entornoEjemplo None None martes4)
     (solicitudEjemplo (fst martes4) (s_pasado_manana @ '' a las 99999999999999''))
   = (200, Datos \<lparr>fecha_resuelta = ''Invalid DateTime'', dia_semana = ''Invalid DateTime'',
        hora = ''Invalid DateTime'', iso_datetime = None, es_finde = False,
        es_pasado = False\<rparr>)"
  by code_simp

text \<open>
  C10 (amended). The digits captured after "pasado manana a las" and "dema passat a les" go
  to \<^verbatim>\<open>set({ hour })\<close> as they are, whatever their value, on the second day after the
  reference in the process's zone. An hour of 99 does not make the
  date invalid: it overflows into the following days (2025-11-06 00:00 plus 99 hours is
  2025-11-10 03:00) and the handler answers 200 with that date. An hour so large that the
  timestamp leaves the range of a \<^verbatim>\<open>Date\<close>, such as 99999999999999, makes the date invalid,
  and the handler still answers 200, with "Invalid DateTime" in the text fields and
  \<^verbatim>\<open>iso_datetime: null\<close>.
\<close>

theorem hora_sin_validar:
  "(\<forall>zs e refDate caps.
      js_match e rx_pasadoMananaHora = Some caps \<or>
      (js_match e rx_pasadoMananaHora = None \<and> js_match e rx_demaPassatHora = Some caps)
      \<longrightarrow> preprocesarExpresion zs e refDate =
            Some (set_dt (plus_days (fromJSDate zs refDate) 2)
                   [Hour \<mapsto> parseInt (grupo1 caps), Minute \<mapsto> 0, Second \<mapsto> 0, Millisecond \<mapsto> 0]))
   \<and> parse_fecha (entornoEjemplo None None martes4)
         (solicitudEjemplo (fst martes4) (s_pasado_manana @ '' a las 99''))
       = (200, Datos \<lparr>fecha_resuelta = ''2025-11-10'', dia_semana = ''lunes'', hora = ''03:00'',
            iso_datetime = Some ''2025-11-10T03:00:00.000+01:00'', es_finde = False,
            es_pasado = False\<rparr>)
   \<and> parse_fecha (entornoEjemplo None None martes4)
         (solicitudEjemplo (fst martes4) (s_pasado_manana @ '' a las 99999999999999''))
       = (200, Datos \<lparr>fecha_resuelta = ''Invalid DateTime'', dia_semana = ''Invalid DateTime'',
            hora = ''Invalid DateTime'', iso_datetime = None, es_finde = False,
            es_pasado = False\<rparr>)"
proof -
  have gen: "preprocesarExpresion zs e refDate =
            Some (set_dt (plus_days (fromJSDate zs refDate) 2)
                   [Hour \<mapsto> parseInt (grupo1 caps), Minute \<mapsto> 0, Second \<mapsto> 0, Millisecond \<mapsto> 0])"
    if "js_match e rx_pasadoMananaHora = Some caps \<or>
      (js_match e rx_pasadoMananaHora = None \<and> js_match e rx_demaPassatHora = Some caps)"
    for zs e refDate caps
    using that by (auto simp: preprocesarExpresion_def enPunto_def Let_def)
  show ?thesis using gen respuesta_hora_99 respuesta_hora_enorme by blast
qed

text \<open>The Catalan rule at an hour of 25: 01:00 of the third day.\<close>

theorem hora_sin_validar_witness:
  "js_match (''Dem'' @ [a_grave] @ '' passat a les 25h'') rx_demaPassatHora = Some [''25'']
   \<and> preprocesarExpresion 60 (''Dem'' @ [a_grave] @ '' passat a les 25h'')
         (toJSDate (fecha_local 2025 11 4 9 0))
       = Some (fecha_local 2025 11 7 1 0)"
proof -
  let ?e = "''Dem'' @ [a_grave] @ '' passat a les 25h''"
  let ?r = "fecha_local 2025 11 4 9 0"
  have z: "fromJSDate 60 (toJSDate ?r) = ?r" by simp
  have h1: "js_match ?e rx_pasadoMananaHora = None" by code_simp
  have h2: "js_match ?e rx_demaPassatHora = Some [''25'']" by code_simp
  have v: "set_dt (plus_days ?r 2)
             [Hour \<mapsto> parseInt (grupo1 [''25'']), Minute \<mapsto> 0, Second \<mapsto> 0, Millisecond \<mapsto> 0]
           = fecha_local 2025 11 7 1 0"
    by code_simp
  note g = conjunct1[OF hora_sin_validar, rule_format, where zs = 60 and e = ?e
      and refDate = "toJSDate ?r" and caps = "[''25'']", unfolded z]
  show ?thesis using g h1 h2 v by simp
qed

text \<open>The claim's example, an hour of 99, gives a valid date.\<close>

theorem hora_99_no_es_invalida:
  "(case parse_fecha (entornoEjemplo None None martes4)
           (solicitudEjemplo (fst martes4) (s_pasado_manana @ '' a las 99'')) of
      (estado, Datos r) \<Rightarrow>
        estado = 200 \<and> fecha_resuelta r = ''2025-11-10'' \<and> hora r = ''03:00'' \<and>
        iso_datetime r \<noteq> None \<and> fecha_resuelta r \<noteq> INVALID
    | (estado, ErrorMensaje m) \<Rightarrow> False)"
  unfolding respuesta_hora_99 by code_simp

end
